theory Spec2Isabelle
  imports Complex_Main
begin

section \<open>Numbers and outcomes\<close>

text \<open>
  JavaScript numbers are modelled as real numbers.  The places where the IEEE computation
  leaves the finite reals are written out: a step size that has become NaN is \<open>None\<close>,
  and a call whose data would hold NaN, an infinity or a value of another type than the
  declared one has the outcome \<open>Unmodelled\<close>, about which nothing more is said.  A call
  that does not return is the value \<open>None\<close> of the option type around the outcome.
  One product is rounded as the machine rounds it, because a whole sample depends on it:
  \<open>duration * samplingRate\<close>, whose ceiling is the number of samples.
\<close>

datatype js_error = Error string | TypeError string

datatype 'a outcome = Returned 'a | Threw js_error | Unmodelled

text \<open>The remainder operator \<open>%\<close> (truncated towards zero, sign of the dividend).\<close>

definition js_rem :: "real \<Rightarrow> real \<Rightarrow> real" where
  "js_rem a b = (if 0 \<le> a / b then a - b * of_int \<lfloor>a / b\<rfloor> else a - b * of_int \<lceil>a / b\<rceil>)"

text \<open>
  The double nearest to a real number: round to nearest, ties to even, with 53 significant
  bits and the exponent of the subnormal numbers as the least one.  \<open>bit_length n\<close> is the
  number of binary digits of \<open>n\<close>, so \<open>binary64_exponent x\<close> is the integer \<open>e\<close> with
  \<open>2^e \<le> |x| < 2^(e+1)\<close>.
\<close>

fun bit_length :: "nat \<Rightarrow> nat" where
  "bit_length n = (if n = 0 then 0 else Suc (bit_length (n div 2)))"

declare bit_length.simps [simp del]

definition pow2 :: "int \<Rightarrow> real" where
  "pow2 e = (if 0 \<le> e then 2 ^ nat e else 1 / 2 ^ nat (- e))"

definition binary64_exponent :: "real \<Rightarrow> int" where
  "binary64_exponent x =
     (if 1 \<le> \<bar>x\<bar> then int (bit_length (nat \<lfloor>\<bar>x\<bar>\<rfloor>)) - 1
      else - int (bit_length (nat (\<lceil>1 / \<bar>x\<bar>\<rceil> - 1))))"

definition round_half_even :: "real \<Rightarrow> int" where
  "round_half_even x =
     (let f = \<lfloor>x\<rfloor>
      in if x - of_int f < 1 / 2 then f
         else if 1 / 2 < x - of_int f then f + 1
         else if even f then f else f + 1)"

definition binary64 :: "real \<Rightarrow> real" where
  "binary64 x =
     (let ulp = pow2 (max (binary64_exponent x) (- 1022) - 52)
      in of_int (round_half_even (x / ulp)) * ulp)"

text \<open>
  The product \<open>a * b\<close> of two doubles; a product that rounds to an infinity is \<open>None\<close>.
\<close>

definition js_times :: "real \<Rightarrow> real \<Rightarrow> real option" where
  "js_times a b = (if \<bar>a * b\<bar> < pow2 1024 - pow2 970 then Some (binary64 (a * b)) else None)"

section \<open>math/ode-solver.ts\<close>

definition DP_A :: "real list" where
  "DP_A = [0, 1/5, 3/10, 4/5, 8/9, 1, 1]"

definition DP_B :: "real list list" where
  "DP_B = [
     [],
     [1/5],
     [3/40, 9/40],
     [44/45, -56/15, 32/9],
     [19372/6561, -25360/2187, 64448/6561, -212/729],
     [9017/3168, -355/33, 46732/5247, 49/176, -5103/18656],
     [35/384, 0, 500/1113, 125/192, -2187/6784, 11/84]]"

definition DP_C5 :: "real list" where
  "DP_C5 = [35/384, 0, 500/1113, 125/192, -2187/6784, 11/84, 0]"

definition DP_C4 :: "real list" where
  "DP_C4 = [5179/57600, 0, 7571/16695, 393/640, -92097/339200, 187/2100, 1/40]"

type_synonym 'p ODEFunction = "real \<Rightarrow> real list \<Rightarrow> 'p \<Rightarrow> real list"

text \<open>The argument of stage \<open>i\<close>: \<open>yNew[j] = y[j]; yNew[j] += h * DP_B[i][m] * k[m][j]\<close> for \<open>m < i\<close>.\<close>

definition stage_input :: "real list \<Rightarrow> real \<Rightarrow> real list list \<Rightarrow> nat \<Rightarrow> real list" where
  "stage_input y h k i =
     map (\<lambda>j. foldl (\<lambda>acc m. acc + h * (DP_B ! i ! m) * (k ! m ! j)) (y ! j) [0..<i]) [0..<length y]"

text \<open>The array \<open>k\<close> after stage \<open>i\<close> has been stored (\<open>k[0]\<close> first, then the loop \<open>i = 1..6\<close>).\<close>

primrec rk_stages :: "'p ODEFunction \<Rightarrow> real \<Rightarrow> real list \<Rightarrow> real \<Rightarrow> 'p \<Rightarrow> nat \<Rightarrow> real list list" where
  "rk_stages func t y h params 0 = [func t y params]"
| "rk_stages func t y h params (Suc i) =
     (let k = rk_stages func t y h params i
      in k @ [func (t + (DP_A ! Suc i) * h) (stage_input y h k (Suc i)) params])"

definition weighted :: "real list \<Rightarrow> real list \<Rightarrow> real \<Rightarrow> real list list \<Rightarrow> real list" where
  "weighted c y h k =
     map (\<lambda>j. foldl (\<lambda>acc i. acc + h * (c ! i) * (k ! i ! j)) (y ! j) [0..<7]) [0..<length y]"

definition rk45Step ::
  "'p ODEFunction \<Rightarrow> real \<Rightarrow> real list \<Rightarrow> real \<Rightarrow> 'p \<Rightarrow> real list \<times> real list \<times> real list" where
  "rk45Step func t y h params =
     (let k = rk_stages func t y h params 6;
          y5 = weighted DP_C5 y h k;
          y4 = weighted DP_C4 y h k;
          error = map (\<lambda>j. \<bar>y5 ! j - y4 ! j\<bar>) [0..<length y]
      in (y5, y4, error))"

text \<open>
  \<open>Math.sqrt(error.reduce((sum, e) => sum + e * e, 0)) / error.length\<close>; for an empty
  vector this is \<open>0 / 0\<close>, NaN, written \<open>None\<close>.
\<close>

definition errorNorm :: "real list \<Rightarrow> real option" where
  "errorNorm error =
     (if error = [] then None
      else Some (sqrt (foldl (\<lambda>sum e. sum + e * e) 0 error) / real (length error)))"

record loop_state =
  currentT :: real
  currentY :: "real list"
  stepSize :: "real option"
  tResult :: "real list"
  yResult :: "real list list"

text \<open>The test \<open>errorNorm < tolerance || stepSize <= minStepSize\<close>; a comparison with NaN is false.\<close>

definition accepts :: "real option \<Rightarrow> real \<Rightarrow> real \<Rightarrow> real \<Rightarrow> bool" where
  "accepts en tolerance h minStepSize =
     ((case en of None \<Rightarrow> False | Some e \<Rightarrow> e < tolerance) \<or> h \<le> minStepSize)"

text \<open>
  The step size after an accepted step.  It changes only under the guard
  \<open>errorNorm > 0\<close>; \<open>Math.pow\<close> of a negative base with exponent 0.2 is NaN.
\<close>

definition grow :: "real option \<Rightarrow> real \<Rightarrow> real \<Rightarrow> real \<Rightarrow> real option" where
  "grow en tolerance maxStep h =
     (case en of
        None \<Rightarrow> Some h
      | Some e \<Rightarrow>
          if e > 0 then
            (if tolerance < 0 then None
             else Some (min maxStep (h * min 2.0 (0.9 * (tolerance / e) powr 0.2))))
          else Some h)"

text \<open>
  The step size after a rejected step.  With \<open>errorNorm = 0\<close> the quotient is
  \<open>0 / 0\<close> (NaN) or \<open>-Infinity\<close>, whose power is \<open>+Infinity\<close>: the step size becomes
  infinite and the next iteration clamps it to \<open>tf - currentT\<close>, which is what is stored here.
\<close>

definition shrink :: "real option \<Rightarrow> real \<Rightarrow> real \<Rightarrow> real \<Rightarrow> real \<Rightarrow> real option" where
  "shrink en tolerance minStepSize remaining h =
     (case en of
        None \<Rightarrow> None
      | Some e \<Rightarrow>
          if e > 0 then
            (if tolerance < 0 then None
             else Some (max minStepSize (h * max 0.1 (0.9 * (tolerance / e) powr 0.25))))
          else if tolerance < 0 then
            (if h > 0 then Some remaining else if h < 0 then Some minStepSize else None)
          else None)"

text \<open>One pass through the body of \<open>while (currentT < tf)\<close>.\<close>

definition solve_iter ::
  "'p ODEFunction \<Rightarrow> 'p \<Rightarrow> real \<Rightarrow> real \<Rightarrow> real \<Rightarrow> real \<Rightarrow> loop_state \<Rightarrow> loop_state" where
  "solve_iter func params tf tolerance minStepSize maxStep s =
     (case stepSize s of
        None \<Rightarrow> s
      | Some h0 \<Rightarrow>
          (let h = (if currentT s + h0 > tf then tf - currentT s else h0);
               (yNext5, yNext4, error) = rk45Step func (currentT s) (currentY s) h params;
               en = errorNorm error
           in if accepts en tolerance h minStepSize then
                s\<lparr>currentT := currentT s + h,
                  currentY := yNext5,
                  tResult := tResult s @ [currentT s + h],
                  yResult := yResult s @ [yNext5],
                  stepSize := grow en tolerance maxStep h\<rparr>
              else
                s\<lparr>stepSize := shrink en tolerance minStepSize (tf - currentT s) h\<rparr>))"

partial_function (option) solve_loop ::
  "'p ODEFunction \<Rightarrow> 'p \<Rightarrow> real \<Rightarrow> real \<Rightarrow> real \<Rightarrow> real \<Rightarrow> loop_state \<Rightarrow> loop_state option" where
  "solve_loop func params tf tolerance minStepSize maxStep s =
     (if currentT s < tf
      then solve_loop func params tf tolerance minStepSize maxStep
             (solve_iter func params tf tolerance minStepSize maxStep s)
      else Some s)"


record ODESolverOptions =
  initialConditions :: "real list"
  timeSpan :: "real \<times> real"
  timePoints :: "int option"
  tolerance :: "real option"
  minStepSize :: "real option"
  maxStepSize :: "real option"

text \<open>The search \<open>while (i < tOriginal.length - 1 && tOriginal[i + 1] < t) i++\<close>.\<close>

function find_bracket :: "real list \<Rightarrow> real \<Rightarrow> nat \<Rightarrow> nat" where
  "find_bracket tOriginal t i =
     (if i + 1 < length tOriginal \<and> tOriginal ! (i + 1) < t
      then find_bracket tOriginal t (i + 1) else i)"
  by pat_completeness auto
termination
  by (relation "measure (\<lambda>(tOriginal, t, i). length tOriginal - i)") auto

declare find_bracket.simps [simp del]

text \<open>
  One resampled state.  Between two stored points with the same time the quotient
  \<open>(t - t0) / (t1 - t0)\<close> is infinite or NaN, written \<open>None\<close>.
\<close>

definition interp_point :: "real list \<Rightarrow> real list list \<Rightarrow> real \<Rightarrow> real list option" where
  "interp_point tOriginal yOriginal t =
     (let i = find_bracket tOriginal t 0
      in if i + 1 = length tOriginal then Some (yOriginal ! i)
         else if tOriginal ! i = t then Some (yOriginal ! i)
         else
           (let t0 = tOriginal ! i;
                t1 = tOriginal ! (i + 1);
                y0 = yOriginal ! i;
                y1 = yOriginal ! (i + 1)
            in if t1 = t0 then None
               else Some (map (\<lambda>j. y0 ! j + ((t - t0) / (t1 - t0)) * (y1 ! j - y0 ! j))
                            [0..<length y0])))"

fun interpolateMulti :: "real list \<Rightarrow> real list list \<Rightarrow> real list \<Rightarrow> real list list option" where
  "interpolateMulti tOriginal yOriginal [] = Some []"
| "interpolateMulti tOriginal yOriginal (t # tNew) =
     (case interp_point tOriginal yOriginal t of
        None \<Rightarrow> None
      | Some v \<Rightarrow>
          (case interpolateMulti tOriginal yOriginal tNew of
             None \<Rightarrow> None
           | Some vs \<Rightarrow> Some (v # vs)))"

text \<open>A number used as a condition is true when it is not zero (and not undefined).\<close>

definition truthy :: "real option \<Rightarrow> bool" where
  "truthy v = (case v of None \<Rightarrow> False | Some x \<Rightarrow> x \<noteq> 0)"

definition pick_maxStep :: "real option \<Rightarrow> int option \<Rightarrow> real \<Rightarrow> real" where
  "pick_maxStep maxStepSize' timePoints' duration' =
     (let targetSpacing =
            (case timePoints' of
               None \<Rightarrow> None
             | Some n \<Rightarrow> if n \<noteq> 0 \<and> n \<noteq> 1 then Some (duration' / real_of_int (n - 1)) else None);
          defaultMaxStep = (if truthy targetSpacing then the targetSpacing / 2 else 0.01)
      in if truthy maxStepSize' then the maxStepSize' else defaultMaxStep)"

text \<open>The loop variables after \<open>tResult.push(currentT); yResult.push([...currentY])\<close>.\<close>

definition initial_state :: "real \<Rightarrow> real list \<Rightarrow> real \<Rightarrow> loop_state" where
  "initial_state t0 y0 maxStep =
     \<lparr>currentT = t0, currentY = y0, stepSize = Some maxStep, tResult = [t0], yResult = [y0]\<rparr>"

definition tInterp_grid :: "real \<Rightarrow> real \<Rightarrow> int \<Rightarrow> real list" where
  "tInterp_grid t0 duration' n =
     map (\<lambda>i. t0 + (real i * duration') / real_of_int (n - 1)) [0..<nat n]"

text \<open>
  \<open>solveODE\<close>.  With \<open>timePoints = 1\<close> the target spacing is \<open>duration / 0\<close>; when the
  loop is entered the step size is then infinite and the resampled time is
  \<open>t0 + 0 / 0\<close>, so the outcome is \<open>Unmodelled\<close> and nothing more is said about that call.
  When the loop is not entered neither value is used.
\<close>

definition solveODE ::
  "'p ODEFunction \<Rightarrow> ODESolverOptions \<Rightarrow> 'p \<Rightarrow> (real list \<times> real list list) outcome option" where
  "solveODE func options params =
     (let (t0, tf) = timeSpan options;
          duration' = tf - t0;
          tol = (case tolerance options of None \<Rightarrow> 1 / 10 ^ 6 | Some v \<Rightarrow> v);
          minStep = (case minStepSize options of None \<Rightarrow> 1 / 10 ^ 8 | Some v \<Rightarrow> v);
          maxStep = pick_maxStep (maxStepSize options) (timePoints options) duration'
      in if timePoints options = Some 1 \<and> t0 < tf then Some Unmodelled
         else
           (case solve_loop func params tf tol minStep maxStep
                   (initial_state t0 (initialConditions options) maxStep) of
              None \<Rightarrow> None
            | Some s \<Rightarrow>
                (case timePoints options of
                   None \<Rightarrow> Some (Returned (tResult s, yResult s))
                 | Some n \<Rightarrow>
                     if n \<noteq> 0 \<and> int (length (tResult s)) \<noteq> n then
                       (case interpolateMulti (tResult s) (yResult s) (tInterp_grid t0 duration' n) of
                          None \<Rightarrow> Some Unmodelled
                        | Some yInterp \<Rightarrow> Some (Returned (tInterp_grid t0 duration' n, yInterp)))
                     else Some (Returned (tResult s, yResult s)))))"


section \<open>models/ecgsyn.ts\<close>

record WaveParameters =
  amplitude :: real
  width :: real
  position :: real

record ECGSynParameters =
  waveP :: WaveParameters
  waveQ :: WaveParameters
  waveR :: WaveParameters
  waveS :: WaveParameters
  waveT :: WaveParameters
  heartRate :: real
  respiratoryRate :: "real option"
  respiratoryAmplitude :: "real option"

definition DEFAULT_ECGSYN_PARAMS :: ECGSynParameters where
  "DEFAULT_ECGSYN_PARAMS =
     \<lparr>waveP = \<lparr>amplitude = 0.15, width = 0.09, position = - pi / 3\<rparr>,
      waveQ = \<lparr>amplitude = - 0.025, width = 0.066, position = - pi / 12\<rparr>,
      waveR = \<lparr>amplitude = 1.6, width = 0.11, position = 0\<rparr>,
      waveS = \<lparr>amplitude = - 0.25, width = 0.066, position = pi / 12\<rparr>,
      waveT = \<lparr>amplitude = 0.35, width = 0.142, position = pi / 2\<rparr>,
      heartRate = 60,
      respiratoryRate = Some 15,
      respiratoryAmplitude = Some 0.01\<rparr>"

record ode_params =
  omega :: real
  waves :: "WaveParameters list"
  z0Function :: "(real \<Rightarrow> real) option"

text \<open>\<open>Math.atan2\<close> on finite arguments.\<close>

definition js_atan2 :: "real \<Rightarrow> real \<Rightarrow> real" where
  "js_atan2 y x =
     (if x > 0 then arctan (y / x)
      else if x < 0 then (if y \<ge> 0 then arctan (y / x) + pi else arctan (y / x) - pi)
      else if y > 0 then pi / 2 else if y < 0 then - pi / 2 else 0)"

text \<open>\<open>while (deltaTheta > Math.PI) deltaTheta -= 2 * Math.PI\<close> and its mirror image.\<close>

function wrap_down :: "real \<Rightarrow> real" where
  "wrap_down d = (if d > pi then wrap_down (d - 2 * pi) else d)"
  by pat_completeness auto
termination
proof (relation "measure (\<lambda>d. nat \<lceil>d / (2 * pi)\<rceil>)")
  show "wf (measure (\<lambda>d. nat \<lceil>d / (2 * pi)\<rceil>))" by simp
next
  fix d :: real
  assume d: "pi < d"
  have p: "0 < 2 * pi" using pi_gt_zero by simp
  have e: "(d - 2 * pi) / (2 * pi) = d / (2 * pi) - 1"
    using p by (simp add: diff_divide_distrib)
  have "0 < d" using d pi_gt_zero by linarith
  then have "0 < d / (2 * pi)" using p by (rule divide_pos_pos)
  then have "0 < \<lceil>d / (2 * pi)\<rceil>" by linarith
  moreover have "\<lceil>(d - 2 * pi) / (2 * pi)\<rceil> = \<lceil>d / (2 * pi)\<rceil> - 1"
    by (simp only: e ceiling_diff_one)
  ultimately have "nat \<lceil>(d - 2 * pi) / (2 * pi)\<rceil> < nat \<lceil>d / (2 * pi)\<rceil>"
    by linarith
  then show "(d - 2 * pi, d) \<in> measure (\<lambda>d. nat \<lceil>d / (2 * pi)\<rceil>)"
    by (simp only: in_measure)
qed

function wrap_up :: "real \<Rightarrow> real" where
  "wrap_up d = (if d < - pi then wrap_up (d + 2 * pi) else d)"
  by pat_completeness auto
termination
proof (relation "measure (\<lambda>d. nat \<lceil>(- d) / (2 * pi)\<rceil>)")
  show "wf (measure (\<lambda>d. nat \<lceil>(- d) / (2 * pi)\<rceil>))" by simp
next
  fix d :: real
  assume d: "d < - pi"
  have p: "0 < 2 * pi" using pi_gt_zero by simp
  have e: "(- (d + 2 * pi)) / (2 * pi) = (- d) / (2 * pi) - 1"
    using p by (simp add: diff_divide_distrib)
  have "0 < - d" using d pi_gt_zero by linarith
  then have "0 < (- d) / (2 * pi)" using p by (rule divide_pos_pos)
  then have "0 < \<lceil>(- d) / (2 * pi)\<rceil>" by linarith
  moreover have "\<lceil>(- (d + 2 * pi)) / (2 * pi)\<rceil> = \<lceil>(- d) / (2 * pi)\<rceil> - 1"
    by (simp only: e ceiling_diff_one)
  ultimately have "nat \<lceil>(- (d + 2 * pi)) / (2 * pi)\<rceil> < nat \<lceil>(- d) / (2 * pi)\<rceil>"
    by linarith
  then show "(d + 2 * pi, d) \<in> measure (\<lambda>d. nat \<lceil>(- d) / (2 * pi)\<rceil>)"
    by (simp only: in_measure)
qed

declare wrap_down.simps [simp del] wrap_up.simps [simp del]

text \<open>The body of \<open>for (const wave of waves)\<close>: the new value of \<open>dzdt\<close>.\<close>

definition wave_term :: "real \<Rightarrow> real \<Rightarrow> real \<Rightarrow> WaveParameters \<Rightarrow> real" where
  "wave_term omega' theta dzdt wave =
     (let deltaTheta = wrap_up (wrap_down (theta - position wave));
          gaussian = exp (- (deltaTheta * deltaTheta) / (2 * width wave * width wave))
      in dzdt - amplitude wave * omega' * deltaTheta * gaussian)"

text \<open>
  \<open>ecgsynODE\<close>.  The state always has three components here (the initial conditions
  are \<open>[1, 0, 0]\<close> and every Runge-Kutta estimate keeps the length).
\<close>

definition ecgsynODE :: "ode_params ODEFunction" where
  "ecgsynODE t state params =
     (let x = state ! 0; y = state ! 1; z = state ! 2;
          r = sqrt (x * x + y * y);
          alpha = 1 - r;
          theta = js_atan2 y x;
          dzdt = foldl (wave_term (omega params) theta) 0 (waves params);
          z0 = (case z0Function params of None \<Rightarrow> 0 | Some f \<Rightarrow> f t)
      in [alpha * x - omega params * y, alpha * y + omega params * x, dzdt - (z - z0)])"

text \<open>\<open>Math.ceil(duration * samplingRate)\<close>, the ceiling of the product as a double.\<close>

definition numPoints :: "real \<Rightarrow> real \<Rightarrow> int option" where
  "numPoints duration' samplingRate' = map_option ceiling (js_times duration' samplingRate')"

text \<open>
  \<open>generateECGSyn\<close>.  A heart rate of zero gives \<open>60 / 0 = Infinity\<close> and
  \<open>2 * Math.PI / Infinity = 0\<close>.  A wave of width zero makes the exponent of the Gaussian
  \<open>-x / 0\<close>, which is \<open>-Infinity\<close> or NaN according to the phase: when the vector field
  is evaluated at all (the loop of the solver is entered when \<open>0 < duration\<close>) the outcome is
  \<open>Unmodelled\<close>.
\<close>

definition generateECGSyn ::
  "real \<Rightarrow> real \<Rightarrow> ECGSynParameters \<Rightarrow> real \<Rightarrow> (real list \<times> real list) outcome option" where
  "generateECGSyn duration' samplingRate' params tolerance' =
     (let omega' = (if heartRate params = 0 then 0 else 2 * pi / (60.0 / heartRate params));
          waves' = [waveP params, waveQ params, waveR params, waveS params, waveT params];
          z0Function' =
            (if truthy (respiratoryRate params) \<and> truthy (respiratoryAmplitude params)
             then Some (\<lambda>t. the (respiratoryAmplitude params)
                             * sin (2 * pi * the (respiratoryRate params) / 60 * t))
             else None);
          odeParams = \<lparr>omega = omega', waves = waves', z0Function = z0Function'\<rparr>
      in case numPoints duration' samplingRate' of
           None \<Rightarrow> Some Unmodelled
         | Some n \<Rightarrow>
             if 0 < duration' \<and> list_ex (\<lambda>wave. width wave = 0) waves' then Some Unmodelled
             else
               (case solveODE ecgsynODE
                       \<lparr>initialConditions = [1, 0, 0], timeSpan = (0, duration'),
                        timePoints = Some n, tolerance = Some tolerance',
                        minStepSize = None, maxStepSize = None\<rparr> odeParams of
                  None \<Rightarrow> None
                | Some Unmodelled \<Rightarrow> Some Unmodelled
                | Some (Threw e) \<Rightarrow> Some (Threw e)
                | Some (Returned (t, y)) \<Rightarrow>
                    Some (Returned (t, map (\<lambda>state. state ! 2 * 80) y))))"


type_synonym transform = "(nat \<Rightarrow> real) \<Rightarrow> nat \<Rightarrow> ECGSynParameters \<Rightarrow> ECGSynParameters \<times> nat"

text \<open>
  \<open>Math.random()\<close> is a stream \<open>rnd\<close> of numbers read at a counter; a function that
  draws returns the advanced counter.  A transform that draws nothing is \<open>fixed f\<close>.
\<close>

definition fixed :: "(ECGSynParameters \<Rightarrow> ECGSynParameters) \<Rightarrow> transform" where
  "fixed f rnd k base = (f base, k)"

definition PATHOLOGY_PARAMS :: "string \<Rightarrow> transform option" where
  "PATHOLOGY_PARAMS key =
     (if key = ''atrialFibrillation'' then
        Some (fixed (\<lambda>base. base\<lparr>waveP := (waveP base)\<lparr>amplitude := 0\<rparr>\<rparr>))
      else if key = ''firstDegreeAVBlock'' then
        Some (fixed (\<lambda>base. base\<lparr>waveP := (waveP base)\<lparr>position := - pi / 2\<rparr>\<rparr>))
      else if key = ''ventricularTachycardia'' then
        Some (fixed (\<lambda>base. base
          \<lparr>heartRate := 180,
           waveQ := (waveQ base)\<lparr>width := width (waveQ base) * 2\<rparr>,
           waveR := (waveR base)\<lparr>width := width (waveR base) * 2\<rparr>,
           waveS := (waveS base)\<lparr>width := width (waveS base) * 2\<rparr>\<rparr>))
      else if key = ''stemi'' then
        Some (fixed (\<lambda>base. base
          \<lparr>waveS := (waveS base)\<lparr>amplitude := amplitude (waveS base) * 0.5\<rparr>,
           waveT := (waveT base)\<lparr>amplitude := amplitude (waveT base) * 1.5, position := pi / 3\<rparr>\<rparr>))
      else if key = ''bradycardia'' then Some (fixed (\<lambda>base. base\<lparr>heartRate := 45\<rparr>))
      else if key = ''tachycardia'' then Some (fixed (\<lambda>base. base\<lparr>heartRate := 120\<rparr>))
      else None)"

section \<open>models/ecgsyn-enhanced.ts\<close>

definition enh_atrialFibrillation :: transform where
  "enh_atrialFibrillation rnd k base =
     (base\<lparr>waveP := \<lparr>amplitude = 0, width = 0.01, position = position (waveP base)\<rparr>,
           heartRate := 90 + rnd k * 40\<rparr>, k + 1)"

definition enh_firstDegreeAVBlock :: transform where
  "enh_firstDegreeAVBlock = fixed (\<lambda>base. base\<lparr>waveP := (waveP base)\<lparr>position := - pi * 0.6\<rparr>\<rparr>)"

definition enh_ventricularTachycardia :: transform where
  "enh_ventricularTachycardia = fixed (\<lambda>base. base
     \<lparr>heartRate := 180,
      waveP := \<lparr>amplitude = 0, width = 0.01, position = position (waveP base)\<rparr>,
      waveQ := \<lparr>amplitude = - 0.4, width = 0.15, position = position (waveQ base) - 0.1\<rparr>,
      waveR := \<lparr>amplitude = 2.5, width = 0.2, position = position (waveR base)\<rparr>,
      waveS := \<lparr>amplitude = - 0.8, width = 0.15, position = position (waveS base) + 0.1\<rparr>,
      waveT := \<lparr>amplitude = - 0.6, width = 0.2, position = position (waveT base)\<rparr>\<rparr>)"

definition enh_stemi :: transform where
  "enh_stemi = fixed (\<lambda>base. base
     \<lparr>waveQ := \<lparr>amplitude = - 0.3, width = 0.08, position = position (waveQ base)\<rparr>,
      waveR := (waveR base)\<lparr>amplitude := amplitude (waveR base) * 0.7\<rparr>,
      waveS := \<lparr>amplitude = - 0.05, width = 0.03, position = position (waveS base)\<rparr>,
      waveT := \<lparr>amplitude = 0.8, width = 0.2, position = pi / 3\<rparr>\<rparr>)"

definition enh_completeHeartBlock :: transform where
  "enh_completeHeartBlock = fixed (\<lambda>base. base
     \<lparr>heartRate := 40,
      waveP := (waveP base)\<lparr>amplitude := amplitude (waveP base) * 1.2\<rparr>,
      waveR := (waveR base)\<lparr>amplitude := amplitude (waveR base) * 1.3\<rparr>\<rparr>)"

definition enh_bradycardia :: transform where
  "enh_bradycardia = fixed (\<lambda>base. base
     \<lparr>heartRate := 45,
      waveT := (waveT base)\<lparr>amplitude := amplitude (waveT base) * 1.2,
                            width := width (waveT base) * 1.1\<rparr>\<rparr>)"

definition enh_tachycardia :: transform where
  "enh_tachycardia = fixed (\<lambda>base. base
     \<lparr>heartRate := 140,
      waveP := (waveP base)\<lparr>amplitude := amplitude (waveP base) * 0.7, position := - pi / 4\<rparr>,
      waveT := (waveT base)\<lparr>amplitude := amplitude (waveT base) * 0.8,
                            width := width (waveT base) * 0.9\<rparr>\<rparr>)"

definition enh_lbbb :: transform where
  "enh_lbbb = fixed (\<lambda>base. base
     \<lparr>waveQ := \<lparr>amplitude = 0, width = 0.01, position = position (waveQ base)\<rparr>,
      waveR := \<lparr>amplitude = 1.8, width = 0.18, position = position (waveR base)\<rparr>,
      waveS := \<lparr>amplitude = - 0.1, width = 0.18, position = position (waveS base) + 0.15\<rparr>,
      waveT := \<lparr>amplitude = - 0.4, width = width (waveT base), position = position (waveT base)\<rparr>\<rparr>)"

definition enh_rbbb :: transform where
  "enh_rbbb = fixed (\<lambda>base. base
     \<lparr>waveR := \<lparr>amplitude = 1.2, width = 0.06, position = position (waveR base)\<rparr>,
      waveS := \<lparr>amplitude = - 0.8, width = 0.12, position = position (waveS base)\<rparr>,
      waveT := \<lparr>amplitude = - 0.3, width = width (waveT base), position = position (waveT base)\<rparr>\<rparr>)"

definition enh_hyperkalemia :: transform where
  "enh_hyperkalemia = fixed (\<lambda>base. base
     \<lparr>waveP := (waveP base)\<lparr>amplitude := amplitude (waveP base) * 0.5,
                            width := width (waveP base) * 1.5\<rparr>,
      waveQ := (waveQ base)\<lparr>width := width (waveQ base) * 1.3\<rparr>,
      waveR := (waveR base)\<lparr>width := width (waveR base) * 1.3\<rparr>,
      waveS := (waveS base)\<lparr>width := width (waveS base) * 1.3\<rparr>,
      waveT := \<lparr>amplitude = 1.2, width = 0.08, position = position (waveT base)\<rparr>\<rparr>)"

definition enh_hypokalemia :: transform where
  "enh_hypokalemia = fixed (\<lambda>base. base
     \<lparr>waveT := \<lparr>amplitude = 0.1, width = width (waveT base) * 1.5,
                position = position (waveT base)\<rparr>\<rparr>)"

definition enh_lvh :: transform where
  "enh_lvh = fixed (\<lambda>base. base
     \<lparr>waveR := \<lparr>amplitude = 2.8, width = width (waveR base), position = position (waveR base)\<rparr>,
      waveS := \<lparr>amplitude = - 1.2, width = width (waveS base), position = position (waveS base)\<rparr>,
      waveT := \<lparr>amplitude = - 0.3, width = width (waveT base) * 1.1,
                position = position (waveT base)\<rparr>\<rparr>)"

definition enh_pericarditis :: transform where
  "enh_pericarditis = fixed (\<lambda>base. base
     \<lparr>waveP := (waveP base)\<lparr>amplitude := amplitude (waveP base) * 1.2\<rparr>,
      waveS := \<lparr>amplitude = - 0.05, width = 0.02, position = position (waveS base)\<rparr>,
      waveT := \<lparr>amplitude = 0.6, width = 0.25, position = pi / 3.5\<rparr>\<rparr>)"

definition ENHANCED_PATHOLOGY_PARAMS :: "string \<Rightarrow> transform option" where
  "ENHANCED_PATHOLOGY_PARAMS =
     map_of
       [(''normal'', fixed (\<lambda>base. base)),
        (''atrialFibrillation'', enh_atrialFibrillation),
        (''firstDegreeAVBlock'', enh_firstDegreeAVBlock),
        (''ventricularTachycardia'', enh_ventricularTachycardia),
        (''stemi'', enh_stemi),
        (''completeHeartBlock'', enh_completeHeartBlock),
        (''bradycardia'', enh_bradycardia),
        (''tachycardia'', enh_tachycardia),
        (''lbbb'', enh_lbbb),
        (''rbbb'', enh_rbbb),
        (''hyperkalemia'', enh_hyperkalemia),
        (''hypokalemia'', enh_hypokalemia),
        (''lvh'', enh_lvh),
        (''pericarditis'', enh_pericarditis)]"


section \<open>Property lookup on object literals\<close>

text \<open>
  \<open>table[key]\<close> on an object literal finds the literal's own properties and then the
  members every object inherits from \<open>Object.prototype\<close>.
\<close>

datatype 'a js_lookup = Own 'a | Inherited string | Absent

definition object_prototype_names :: "string list" where
  "object_prototype_names =
     [''constructor'', ''__defineGetter__'', ''__defineSetter__'', ''hasOwnProperty'',
      ''__lookupGetter__'', ''__lookupSetter__'', ''isPrototypeOf'', ''propertyIsEnumerable'',
      ''toString'', ''valueOf'', ''__proto__'', ''toLocaleString'']"

definition js_get :: "(string \<Rightarrow> 'a option) \<Rightarrow> string \<Rightarrow> 'a js_lookup" where
  "js_get table key =
     (case table key of
        Some v \<Rightarrow> Own v
      | None \<Rightarrow> if key \<in> set object_prototype_names then Inherited key else Absent)"

text \<open>
  An inherited member called as a plain function on one object: \<open>Object\<close> (the member
  \<open>constructor\<close>) returns its argument, \<open>toString\<close> returns a string (a value of another
  type), \<open>__proto__\<close> is an object and not callable, and the other members convert the
  undefined \<open>this\<close> to an object; both of the latter raise a TypeError.
\<close>

definition call_inherited :: "string \<Rightarrow> 'a \<Rightarrow> 'a outcome" where
  "call_inherited name v =
     (if name = ''constructor'' then Returned v
      else if name = ''toString'' then Unmodelled
      else if name = ''__proto__'' then Threw (TypeError ''not a function'')
      else Threw (TypeError ''Cannot convert undefined or null to object''))"

section \<open>ECGGenerator.ts\<close>

record NoiseOptions =
  baseline :: "(real \<times> real) option"
  powerline :: "(real \<times> real) option"
  muscle :: "real option"
  gaussian :: "real option"

text \<open>
  A member of \<open>customParams\<close>, of type \<open>Partial<ECGSynParameters>\<close>: the key is left out,
  or it is there with the value \<open>undefined\<close>, or it has a value.
\<close>

datatype 'a js_field = Omitted | Undefined | Given 'a

record CustomParams =
  custP :: "WaveParameters js_field"
  custQ :: "WaveParameters js_field"
  custR :: "WaveParameters js_field"
  custS :: "WaveParameters js_field"
  custT :: "WaveParameters js_field"
  custHeartRate :: "real js_field"
  custRespiratoryRate :: "real js_field"
  custRespiratoryAmplitude :: "real js_field"

record ECGGeneratorOptions =
  optSamplingRate :: "real option"
  optDuration :: "real option"
  optHeartRate :: "real option"
  optPathology :: "string option"
  optNoise :: "NoiseOptions option"
  optCustomParams :: "CustomParams option"
  optSolverTolerance :: "real option"

record Metadata =
  mdDuration :: real
  mdHeartRate :: real
  mdPathology :: string
  mdNoise :: "NoiseOptions option"

record ECGResult =
  time :: "real list"
  signal :: "real list"
  samplingRate :: real
  metadata :: Metadata

text \<open>The class has one field, the sampling rate given to the constructor.\<close>

record ECGGenerator =
  thisSamplingRate :: real

definition new_ECGGenerator :: "real option \<Rightarrow> js_error + ECGGenerator" where
  "new_ECGGenerator samplingRate' =
     (let sr = (case samplingRate' of None \<Rightarrow> 1000 | Some v \<Rightarrow> v)
      in if sr < 250 then Inl (Error ''Sampling rate must be at least 250 Hz for ECG generation'')
         else Inr \<lparr>thisSamplingRate = sr\<rparr>)"

text \<open>The pathology step of \<open>generate\<close>: enhanced table first, then the basic one.\<close>

definition apply_pathology ::
  "string \<Rightarrow> (nat \<Rightarrow> real) \<Rightarrow> nat \<Rightarrow> ECGSynParameters \<Rightarrow> (ECGSynParameters \<times> nat) outcome" where
  "apply_pathology pathology rnd k params =
     (if pathology \<noteq> ''normal'' then
        (case js_get ENHANCED_PATHOLOGY_PARAMS pathology of
           Own enhancedPathology \<Rightarrow> Returned (enhancedPathology rnd k params)
         | Inherited name \<Rightarrow> call_inherited name (params, k)
         | Absent \<Rightarrow>
             (case js_get PATHOLOGY_PARAMS pathology of
                Own basic \<Rightarrow> Returned (basic rnd k params)
              | Inherited name \<Rightarrow> call_inherited name (params, k)
              | Absent \<Rightarrow> Returned (params, k)))
      else Returned (params, k))"

text \<open>
  \<open>{ ...params, ...customParams }\<close>: a key that is there replaces the old member, also with
  \<open>undefined\<close>.  An undefined respiratory rate or amplitude is a member of the declared
  (optional) type.  An undefined wave or heart rate is not: \<open>generate\<close> settles these two
  cases before the merged object is used, and the old member stands in for them here.
\<close>

definition merge_field :: "'a \<Rightarrow> 'a js_field \<Rightarrow> 'a" where
  "merge_field old f = (case f of Given v \<Rightarrow> v | Omitted \<Rightarrow> old | Undefined \<Rightarrow> old)"

definition merge_optional :: "'a option \<Rightarrow> 'a js_field \<Rightarrow> 'a option" where
  "merge_optional old f = (case f of Given v \<Rightarrow> Some v | Omitted \<Rightarrow> old | Undefined \<Rightarrow> None)"

definition merge_custom :: "ECGSynParameters \<Rightarrow> CustomParams \<Rightarrow> ECGSynParameters" where
  "merge_custom params c =
     \<lparr>waveP = merge_field (waveP params) (custP c),
      waveQ = merge_field (waveQ params) (custQ c),
      waveR = merge_field (waveR params) (custR c),
      waveS = merge_field (waveS params) (custS c),
      waveT = merge_field (waveT params) (custT c),
      heartRate = merge_field (heartRate params) (custHeartRate c),
      respiratoryRate = merge_optional (respiratoryRate params) (custRespiratoryRate c),
      respiratoryAmplitude =
        merge_optional (respiratoryAmplitude params) (custRespiratoryAmplitude c)\<rparr>"

definition undefined_wave :: "CustomParams \<Rightarrow> bool" where
  "undefined_wave c =
     (custP c = Undefined \<or> custQ c = Undefined \<or> custR c = Undefined \<or> custS c = Undefined
      \<or> custT c = Undefined)"

text \<open>
  The post-processing steps read \<open>time[i]\<close> for every index of the signal; \<open>generate\<close>
  passes arrays of equal length.
\<close>

definition addSTElevation :: "real list \<Rightarrow> real list \<Rightarrow> real list" where
  "addSTElevation signal' time' =
     (let beatDuration = 60 / 70
      in map (\<lambda>i. let t = js_rem (time' ! i) beatDuration
                   in if t > 0.35 * beatDuration \<and> t < 0.44 * beatDuration
                      then (let stPhase = (t - 0.35 * beatDuration) / (0.09 * beatDuration)
                            in signal' ! i + 0.3 * exp (- ((stPhase - 0.5) ^ 2) * 10))
                      else signal' ! i)
           [0..<length signal'])"

text \<open>With a heart rate of zero the beat lasts \<open>Infinity\<close> and no sample is in the window.\<close>

definition addUWaves :: "real list \<Rightarrow> real list \<Rightarrow> real \<Rightarrow> real list" where
  "addUWaves signal' time' heartRate' =
     (if heartRate' = 0 then signal'
      else
        (let beatDuration = 60 / heartRate'
         in map (\<lambda>i. let t = js_rem (time' ! i) beatDuration
                      in if t > 0.65 * beatDuration \<and> t < 0.8 * beatDuration
                         then (let uPhase = (t - 0.65 * beatDuration) / (0.15 * beatDuration)
                               in signal' ! i + 0.15 * exp (- ((uPhase - 0.5) ^ 2) / 0.05))
                         else signal' ! i)
              [0..<length signal']))"

text \<open>Six draws for every sample, one for each frequency 350, 400, ..., 600.\<close>

definition addFibrillatoryWaves ::
  "real list \<Rightarrow> real list \<Rightarrow> (nat \<Rightarrow> real) \<Rightarrow> nat \<Rightarrow> real list \<times> nat" where
  "addFibrillatoryWaves signal' time' rnd k =
     (map (\<lambda>i. signal' ! i
                + foldl (\<lambda>fibWave j. fibWave
                           + 0.02 * sin (2 * pi * (350 + 50 * real j) * (time' ! i)
                                         + rnd (k + 6 * i + j) * 2 * pi))
                    0 [0..<6])
        [0..<length signal'],
      k + 6 * length signal')"

definition simulateAVDissociation :: "real list \<Rightarrow> real list" where
  "simulateAVDissociation signal' = signal'"

text \<open>
  \<open>addNoise\<close>.  The muscle and the Gaussian component draw twice for every sample.  (For a
  draw \<open>u1 = 0\<close> the Gaussian sample is infinite; the stream is taken to avoid it.)
\<close>

definition addNoise ::
  "real list \<Rightarrow> real list \<Rightarrow> NoiseOptions \<Rightarrow> (nat \<Rightarrow> real) \<Rightarrow> nat \<Rightarrow> real list \<times> nat" where
  "addNoise signal' time' noise rnd k =
     (let n = length signal';
          s1 = (case baseline noise of
                  None \<Rightarrow> signal'
                | Some (a, f) \<Rightarrow> map (\<lambda>i. signal' ! i + a * sin (2 * pi * f * (time' ! i))) [0..<n]);
          s2 = (case powerline noise of
                  None \<Rightarrow> s1
                | Some (a, f) \<Rightarrow> map (\<lambda>i. s1 ! i + a * sin (2 * pi * f * (time' ! i))) [0..<n]);
          (s3, k3) = (case muscle noise of
                  None \<Rightarrow> (s2, k)
                | Some a \<Rightarrow>
                    (map (\<lambda>i. s2 ! i + a * (rnd (k + 2 * i) - 0.5)
                                 * sin (2 * pi * (20 + rnd (k + 2 * i + 1) * 30) * (time' ! i)))
                       [0..<n], k + 2 * n))
      in case gaussian noise of
           None \<Rightarrow> (s3, k3)
         | Some a \<Rightarrow>
             (map (\<lambda>i. s3 ! i + a * (sqrt (- 2 * ln (rnd (k3 + 2 * i)))
                                      * cos (2 * pi * rnd (k3 + 2 * i + 1))))
                [0..<n], k3 + 2 * n))"


text \<open>
  \<open>makeIrregular\<close>.  The average RR interval \<open>60 / baseHeartRate\<close> is \<open>Infinity\<close> for
  a heart rate of zero, written \<open>None\<close>; so is the end of a beat of infinite length.
  The inner loop copies the samples before \<open>endTime\<close>.
\<close>

function copy_segment ::
  "real list \<Rightarrow> real list \<Rightarrow> real option \<Rightarrow> real \<Rightarrow> real option \<Rightarrow> nat \<Rightarrow> real list \<Rightarrow> real list
     \<Rightarrow> nat \<times> real list \<times> real list" where
  "copy_segment time' signal' avgRR startTime endTime sourceIndex newTime newSignal =
     (if sourceIndex < length time'
         \<and> (case endTime of None \<Rightarrow> True | Some e \<Rightarrow> time' ! sourceIndex < e)
      then
        (let adjustedTime =
               startTime + (case avgRR of None \<Rightarrow> time' ! sourceIndex
                                        | Some a \<Rightarrow> js_rem (time' ! sourceIndex) a)
         in if adjustedTime \<le> last time'
            then copy_segment time' signal' avgRR startTime endTime (sourceIndex + 1)
                   (newTime @ [adjustedTime]) (newSignal @ [signal' ! sourceIndex])
            else copy_segment time' signal' avgRR startTime endTime (sourceIndex + 1)
                   newTime newSignal)
      else (sourceIndex, newTime, newSignal))"
  by pat_completeness auto
termination
  by (relation "measure (\<lambda>(time', signal', avgRR, startTime, endTime, sourceIndex, newTime, newSignal).
                           length time' - sourceIndex)") auto

declare copy_segment.simps [simp del]

record irr_state =
  irCurrentTime :: real
  irSourceIndex :: nat
  irNewTime :: "real list"
  irNewSignal :: "real list"
  irK :: nat

text \<open>One beat: draw the RR interval, copy the segment, move on and reset the source index.\<close>

definition irregular_beat ::
  "real list \<Rightarrow> real list \<Rightarrow> real \<Rightarrow> real \<Rightarrow> (nat \<Rightarrow> real) \<Rightarrow> irr_state \<Rightarrow> irr_state" where
  "irregular_beat time' signal' avgRR sr rnd s =
     (let rrInterval = avgRR * (0.4 + rnd (irK s) * 1.1);
          startTime = irCurrentTime s;
          endTime = irCurrentTime s + rrInterval;
          (sourceIndex, newTime, newSignal) =
             copy_segment time' signal' (Some avgRR) startTime (Some endTime)
               (irSourceIndex s) (irNewTime s) (irNewSignal s)
      in \<lparr>irCurrentTime = endTime,
          irSourceIndex = nat (\<lfloor>real sourceIndex / (avgRR * sr)\<rfloor> * \<lfloor>avgRR * sr\<rfloor>),
          irNewTime = newTime, irNewSignal = newSignal, irK = irK s + 1\<rparr>)"

text \<open>The only beat when the RR interval is infinite: everything is copied and the loop ends.\<close>

definition endless_beat :: "real list \<Rightarrow> real list \<Rightarrow> irr_state \<Rightarrow> irr_state" where
  "endless_beat time' signal' s =
     (let (sourceIndex, newTime, newSignal) =
             copy_segment time' signal' None (irCurrentTime s) None
               (irSourceIndex s) (irNewTime s) (irNewSignal s)
      in s\<lparr>irSourceIndex := sourceIndex, irNewTime := newTime, irNewSignal := newSignal,
            irK := irK s + 1\<rparr>)"

partial_function (option) irregular_loop ::
  "real list \<Rightarrow> real list \<Rightarrow> real \<Rightarrow> real \<Rightarrow> (nat \<Rightarrow> real) \<Rightarrow> irr_state \<Rightarrow> irr_state option" where
  "irregular_loop time' signal' baseHeartRate sr rnd s =
     (if time' \<noteq> [] \<and> irCurrentTime s < last time' \<and> irSourceIndex s + 1 < length signal'
      then
        (if baseHeartRate = 0 then Some (endless_beat time' signal' s)
         else irregular_loop time' signal' baseHeartRate sr rnd
                (irregular_beat time' signal' (60 / baseHeartRate) sr rnd s))
      else Some s)"

definition makeIrregular ::
  "ECGGenerator \<Rightarrow> real list \<Rightarrow> real list \<Rightarrow> real \<Rightarrow> (nat \<Rightarrow> real) \<Rightarrow> nat
     \<Rightarrow> ((real list \<times> real list) \<times> nat) option" where
  "makeIrregular this time' signal' baseHeartRate rnd k =
     (case irregular_loop time' signal' baseHeartRate (thisSamplingRate this) rnd
             \<lparr>irCurrentTime = 0, irSourceIndex = 0, irNewTime = [], irNewSignal = [], irK = k\<rparr> of
        None \<Rightarrow> None
      | Some s \<Rightarrow> Some ((irNewTime s, irNewSignal s), irK s))"

text \<open>The pathology-specific post-processing of \<open>generate\<close>.\<close>

definition post_process ::
  "ECGGenerator \<Rightarrow> string \<Rightarrow> ECGSynParameters \<Rightarrow> (nat \<Rightarrow> real) \<Rightarrow> nat \<Rightarrow> real list \<Rightarrow> real list
     \<Rightarrow> ((real list \<times> real list) \<times> nat) option" where
  "post_process this pathology params rnd k time' ecg =
     (if pathology = ''stemi'' then Some ((time', addSTElevation ecg time'), k)
      else if pathology = ''hypokalemia'' then
        Some ((time', addUWaves ecg time' (heartRate params)), k)
      else if pathology = ''atrialFibrillation'' then
        (let (ecg', k') = addFibrillatoryWaves ecg time' rnd k
         in makeIrregular this time' ecg' (heartRate params) rnd k')
      else if pathology = ''completeHeartBlock'' then
        Some ((time', simulateAVDissociation ecg), k)
      else Some ((time', ecg), k))"

text \<open>
  The destructured options of \<open>generate\<close> with their defaults, and \<open>generate\<close>.  With a wave
  that is \<open>undefined\<close> after the merge, the first evaluation of the vector field reads
  \<open>wave.position\<close> of it and raises a TypeError; the field is evaluated when the loop of the
  solver is entered, that is when \<open>0 < duration\<close>.  An undefined heart rate makes the angular
  velocity NaN.
\<close>

definition reqDuration :: "ECGGeneratorOptions \<Rightarrow> real" where
  "reqDuration options = (case optDuration options of None \<Rightarrow> 10 | Some v \<Rightarrow> v)"

definition reqHeartRate :: "ECGGeneratorOptions \<Rightarrow> real" where
  "reqHeartRate options = (case optHeartRate options of None \<Rightarrow> 60 | Some v \<Rightarrow> v)"

definition reqPathology :: "ECGGeneratorOptions \<Rightarrow> string" where
  "reqPathology options = (case optPathology options of None \<Rightarrow> ''normal'' | Some v \<Rightarrow> v)"

definition reqSamplingRate :: "ECGGenerator \<Rightarrow> ECGGeneratorOptions \<Rightarrow> real" where
  "reqSamplingRate this options =
     (case optSamplingRate options of None \<Rightarrow> thisSamplingRate this | Some v \<Rightarrow> v)"

definition reqSolverTolerance :: "ECGGeneratorOptions \<Rightarrow> real" where
  "reqSolverTolerance options =
     (case optSolverTolerance options of None \<Rightarrow> 1 / 10 ^ 6 | Some v \<Rightarrow> v)"

definition generate ::
  "ECGGenerator \<Rightarrow> (nat \<Rightarrow> real) \<Rightarrow> nat \<Rightarrow> ECGGeneratorOptions \<Rightarrow> (ECGResult outcome \<times> nat) option" where
  "generate this rnd k options =
     (let duration' = reqDuration options;
          heartRate' = reqHeartRate options;
          pathology = reqPathology options;
          samplingRate' = reqSamplingRate this options;
          solverTolerance = reqSolverTolerance options
      in case apply_pathology pathology rnd k (DEFAULT_ECGSYN_PARAMS\<lparr>heartRate := heartRate'\<rparr>) of
           Threw e \<Rightarrow> Some (Threw e, k)
         | Unmodelled \<Rightarrow> Some (Unmodelled, k)
         | Returned (params1, k1) \<Rightarrow>
             (let params = (case optCustomParams options of
                              None \<Rightarrow> params1 | Some c \<Rightarrow> merge_custom params1 c)
              in if 0 < duration'
                    \<and> (case optCustomParams options of None \<Rightarrow> False | Some c \<Rightarrow> undefined_wave c)
                 then Some (Threw (TypeError ''Cannot read properties of undefined''), k1)
                 else if (case optCustomParams options of
                            None \<Rightarrow> False | Some c \<Rightarrow> custHeartRate c = Undefined)
                 then Some (Unmodelled, k1)
                 else
                   (case generateECGSyn duration' samplingRate' params solverTolerance of
                      None \<Rightarrow> None
                    | Some (Threw e) \<Rightarrow> Some (Threw e, k1)
                    | Some Unmodelled \<Rightarrow> Some (Unmodelled, k1)
                    | Some (Returned (time0, ecg0)) \<Rightarrow>
                        (case post_process this pathology params rnd k1 time0 ecg0 of
                           None \<Rightarrow> None
                         | Some ((time1, ecg1), k2) \<Rightarrow>
                             (let (ecg2, k3) =
                                    (case optNoise options of
                                       None \<Rightarrow> (ecg1, k2)
                                     | Some noise \<Rightarrow> addNoise ecg1 time1 noise rnd k2)
                              in Some (Returned
                                   \<lparr>time = time1, signal = ecg2, samplingRate = samplingRate',
                                    metadata = \<lparr>mdDuration = duration',
                                                mdHeartRate = heartRate params,
                                                mdPathology = pathology,
                                                mdNoise = optNoise options\<rparr>\<rparr>, k3))))))"

text \<open>\<open>generateMultiLead\<close>: the table of lead transformations and the loop over the leads.\<close>

definition leadTransforms :: "string \<Rightarrow> (real list \<Rightarrow> real list) option" where
  "leadTransforms =
     map_of
       [(''I'', map (\<lambda>v. v * 0.8)),
        (''II'', (\<lambda>signal'. signal')),
        (''III'', map (\<lambda>v. v * 0.6)),
        (''aVR'', map (\<lambda>v. - v * 0.5)),
        (''aVL'', map (\<lambda>v. v * 0.4)),
        (''aVF'', map (\<lambda>v. v * 0.7)),
        (''V1'', map (\<lambda>v. v * 0.3)),
        (''V2'', map (\<lambda>v. v * 0.5)),
        (''V3'', map (\<lambda>v. v * 0.8)),
        (''V4'', map (\<lambda>v. v * 1.0)),
        (''V5'', map (\<lambda>v. v * 0.9)),
        (''V6'', map (\<lambda>v. v * 0.7))]"

text \<open>\<open>(leadTransforms[lead] || ((s) => s))(leadII.signal)\<close>.\<close>

definition lead_signal :: "string \<Rightarrow> real list \<Rightarrow> real list outcome" where
  "lead_signal lead signal' =
     (case js_get leadTransforms lead of
        Own transform \<Rightarrow> Returned (transform signal')
      | Inherited name \<Rightarrow> call_inherited name signal'
      | Absent \<Rightarrow> Returned signal')"

fun derive_leads ::
  "ECGResult \<Rightarrow> string list \<Rightarrow> (string \<rightharpoonup> ECGResult) \<Rightarrow> (string \<rightharpoonup> ECGResult) outcome" where
  "derive_leads leadII [] result = Returned result"
| "derive_leads leadII (lead # leads) result =
     (case lead_signal lead (signal leadII) of
        Returned s \<Rightarrow> derive_leads leadII leads (result(lead \<mapsto> leadII\<lparr>signal := s\<rparr>))
      | Threw e \<Rightarrow> Threw e
      | Unmodelled \<Rightarrow> Unmodelled)"

definition generateMultiLead ::
  "ECGGenerator \<Rightarrow> (nat \<Rightarrow> real) \<Rightarrow> nat \<Rightarrow> ECGGeneratorOptions \<Rightarrow> string list option
     \<Rightarrow> ((string \<rightharpoonup> ECGResult) outcome \<times> nat) option" where
  "generateMultiLead this rnd k options leads' =
     (let leads = (case leads' of
                     None \<Rightarrow> [''I'', ''II'', ''III'', ''aVR'', ''aVL'', ''aVF'']
                   | Some l \<Rightarrow> l)
      in case generate this rnd k options of
           None \<Rightarrow> None
         | Some (Threw e, k') \<Rightarrow> Some (Threw e, k')
         | Some (Unmodelled, k') \<Rightarrow> Some (Unmodelled, k')
         | Some (Returned leadII, k') \<Rightarrow> Some (derive_leads leadII leads Map.empty, k'))"








section \<open>Reference definitions and test inputs\<close>

text \<open>
  The root mean square of a vector, the reading of the error norm as
  "root-mean-square, normalized by vector length".
\<close>

definition rms :: "real list \<Rightarrow> real" where
  "rms v = sqrt ((\<Sum>e\<leftarrow>v. e\<^sup>2) / real (length v))"

text \<open>
  The growth factor \<open>min(2.0, 0.9 * (tolerance/errorNorm)^0.2)\<close> read for every error
  norm: for a positive tolerance and an error norm of zero the quotient is \<open>+Infinity\<close>
  and the minimum is 2.
\<close>

definition spec_growth :: "real \<Rightarrow> real \<Rightarrow> real" where
  "spec_growth tolerance' e = (if e = 0 then 2 else min 2.0 (0.9 * (tolerance' / e) powr 0.2))"

text \<open>Two vector fields to run the solver on: \<open>y' = (t\<^sup>4, 0)\<close> and \<open>y' = 0\<close>.\<close>

definition quartic :: "unit ODEFunction" where
  "quartic t y p = [t * t * t * t, 0]"

definition still :: "unit ODEFunction" where
  "still t y p = [0]"

text \<open>
  A request the solver can be run on by hand: the custom parameters set the heart rate and
  the respiratory rate to zero, so the angular velocity is zero, there is no baseline
  function and the state stays at \<open>(1, 0, 0)\<close>.
\<close>

definition flat_custom :: CustomParams where
  "flat_custom = \<lparr>custP = Omitted, custQ = Omitted, custR = Omitted, custS = Omitted,
     custT = Omitted, custHeartRate = Given 0, custRespiratoryRate = Given 0,
     custRespiratoryAmplitude = Omitted\<rparr>"

definition flat_params :: ECGSynParameters where
  "flat_params = merge_custom DEFAULT_ECGSYN_PARAMS flat_custom"

definition flat_ode :: ode_params where
  "flat_ode = \<lparr>omega = 0,
      waves = [waveP flat_params, waveQ flat_params, waveR flat_params, waveS flat_params,
               waveT flat_params],
      z0Function = None\<rparr>"

definition flat_request ::
  "real option \<Rightarrow> real \<Rightarrow> string option \<Rightarrow> real option \<Rightarrow> ECGGeneratorOptions" where
  "flat_request sr d p tol =
     \<lparr>optSamplingRate = sr, optDuration = Some d, optHeartRate = Some 60,
      optPathology = p, optNoise = None, optCustomParams = Some flat_custom,
      optSolverTolerance = tol\<rparr>"

text \<open>A random stream whose every draw is 1/2.\<close>

definition half :: "nat \<Rightarrow> real" where
  "half i = 1 / 2"

text \<open>The members of the type \<open>PathologyType\<close>.\<close>

definition pathology_names :: "string list" where
  "pathology_names =
     [''normal'', ''atrialFibrillation'', ''firstDegreeAVBlock'', ''ventricularTachycardia'',
      ''stemi'', ''bradycardia'', ''tachycardia'', ''completeHeartBlock'', ''lbbb'', ''rbbb'',
      ''hyperkalemia'', ''hypokalemia'', ''lvh'', ''pericarditis'']"

text \<open>The per-lead multipliers as the specification lists them.\<close>

definition lead_scalars :: "(string \<times> real) list" where
  "lead_scalars =
     [(''I'', 0.8), (''II'', 1.0), (''III'', 0.6), (''aVR'', - 0.5), (''aVL'', 0.4),
      (''aVF'', 0.7), (''V1'', 0.3), (''V2'', 0.5), (''V3'', 0.8), (''V4'', 1.0),
      (''V5'', 0.9), (''V6'', 0.7)]"

text \<open>What a change of the pathology label alone does to the answer of \<open>generate\<close>.\<close>

definition relabel :: "string \<Rightarrow> ECGResult outcome \<times> nat \<Rightarrow> ECGResult outcome \<times> nat" where
  "relabel p x =
     (case x of
        (Returned r, k) \<Rightarrow> (Returned (r\<lparr>metadata := (metadata r)\<lparr>mdPathology := p\<rparr>\<rparr>), k)
      | (Threw e, k) \<Rightarrow> (Threw e, k)
      | (Unmodelled, k) \<Rightarrow> (Unmodelled, k))"

text \<open>A request with the default parameters, for a duration and a pathology.\<close>

definition plain_request :: "real \<Rightarrow> string option \<Rightarrow> ECGGeneratorOptions" where
  "plain_request d p =
     \<lparr>optSamplingRate = None, optDuration = Some d, optHeartRate = Some 60,
      optPathology = p, optNoise = None, optCustomParams = None, optSolverTolerance = None\<rparr>"




text \<open>What the solver loop keeps true of the number of recorded points: no accepted step is longer than the maximum step.\<close>

definition paced_run :: "real \<Rightarrow> real \<Rightarrow> real \<Rightarrow> loop_state \<Rightarrow> bool" where
  "paced_run t0 maxStep tol s =
     (tResult s \<noteq> [] \<and> currentT s - t0 \<le> (real (length (tResult s)) - 1) * maxStep
      \<and> (0 \<le> tol \<longrightarrow> (case stepSize s of None \<Rightarrow> True | Some h \<Rightarrow> h \<le> maxStep)))"


text \<open>
  Inputs for the irregular rhythm: a random stream whose every draw is 3/4 (heart rate
  \<open>90 + 0.75 * 40 = 120\<close>, RR interval \<open>0.5 * (0.4 + 0.75 * 1.1) = 0.6125\<close>), and the
  uniform grid of 130 points over 0.52 s that the solver returns at 250 Hz.
\<close>

definition three_quarters :: "nat \<Rightarrow> real" where
  "three_quarters i = 3 / 4"

definition afib_grid :: "real list" where
  "afib_grid = tInterp_grid 0 (13 / 25) 130"

text \<open>A request with a negative duration and a negative sampling rate.\<close>

definition backwards_request :: ECGGeneratorOptions where
  "backwards_request =
     \<lparr>optSamplingRate = Some (- 250), optDuration = Some (- (1 / 125)), optHeartRate = Some 60,
      optPathology = None, optNoise = None, optCustomParams = None, optSolverTolerance = None\<rparr>"



text \<open>
  A request for the trace at rest with a baseline wander of amplitude 0.1 at 32 Hz, whose
  second sample (at 1/128 s) is 0.1.
\<close>

definition wander :: NoiseOptions where
  "wander = \<lparr>baseline = Some (1 / 10, 32), powerline = None, muscle = None, gaussian = None\<rparr>"

definition wander_request :: ECGGeneratorOptions where
  "wander_request = (flat_request None (1 / 128) (Some ''normal'') None)\<lparr>optNoise := Some wander\<rparr>"



section \<open>The error norm of a step\<close>

lemmas dp_defs = DP_A_def DP_B_def DP_C5_def DP_C4_def

lemma quartic_step:
  "rk45Step quartic 0 [0, 0] 1 () = ([1 / 5, 0], [53929 / 270000, 0], [71 / 270000, 0])"
  by (simp add: rk45Step_def weighted_def stage_input_def quartic_def dp_defs
      eval_nat_numeral upt_rec Let_def)

lemma still_step: "rk45Step still t [0] h () = ([0], [0], [0])"
  by (simp add: rk45Step_def weighted_def stage_input_def still_def dp_defs
      eval_nat_numeral upt_rec Let_def)

lemma foldl_squares: "foldl (\<lambda>sum e. sum + e * e) (a::real) xs = a + (\<Sum>e\<leftarrow>xs. e\<^sup>2)"
proof (induction xs arbitrary: a)
  case Nil
  show ?case by simp
next
  case (Cons x xs)
  have "foldl (\<lambda>sum e. sum + e * e) a (x # xs) = (a + x * x) + (\<Sum>e\<leftarrow>xs. e\<^sup>2)"
    by (simp add: Cons.IH)
  also have "\<dots> = a + (\<Sum>e\<leftarrow>x # xs. e\<^sup>2)"
    by (simp add: power2_eq_square)
  finally show ?case .
qed

lemma sum_list_abs_squares:
  "(\<Sum>e\<leftarrow>map (\<lambda>j. \<bar>f j\<bar>) [0..<n]. e\<^sup>2) = (\<Sum>j<n. (f j :: real)\<^sup>2)"
  by (simp add: comp_def interv_sum_list_conv_sum_set_nat atLeast0LessThan)

lemma errorNorm_single: "errorNorm [a] = Some \<bar>a\<bar>"
  by (simp add: errorNorm_def)

lemma errorNorm_pair: "errorNorm [a, 0] = Some (\<bar>a\<bar> / 2)"
  by (simp add: errorNorm_def)

lemma sqrt2_less: "sqrt 2 < (2::real)"
  by (rule real_less_lsqrt) simp_all

text \<open>
  C7, as amended.  For every attempted step on a non-empty state vector the error norm
  is the Euclidean norm of the difference between the 5th-order and the 4th-order
  estimate, divided by the vector length: the square root of the sum of the squared
  differences over \<open>n\<close>, not the square root of their mean.
\<close>

theorem errorNorm_euclidean:
  assumes "rk45Step func t y h params = (y5, y4, err)" and "y \<noteq> []"
  shows "errorNorm err = Some (sqrt (\<Sum>j<length y. (y5 ! j - y4 ! j)\<^sup>2) / real (length y))"
proof -
  have err: "err = map (\<lambda>j. \<bar>y5 ! j - y4 ! j\<bar>) [0..<length y]"
    using assms(1) by (auto simp: rk45Step_def Let_def)
  have ne: "err \<noteq> []" using assms(2) by (simp add: err)
  have len: "length err = length y" by (simp add: err)
  have "(\<Sum>e\<leftarrow>err. e\<^sup>2) = (\<Sum>j<length y. (y5 ! j - y4 ! j)\<^sup>2)"
    unfolding err by (rule sum_list_abs_squares)
  then show ?thesis
    using ne len by (simp add: errorNorm_def foldl_squares)
qed

theorem errorNorm_euclidean_witness:
  "errorNorm [71 / 270000, 0] = Some (71 / 540000)"
proof -
  have "(\<Sum>j<2. ([1 / 5, 0] ! j - [53929 / 270000, 0::real] ! j)\<^sup>2) = (71 / 270000)\<^sup>2"
    by (simp add: numeral_2_eq_2)
  then have "sqrt (\<Sum>j<2. ([1 / 5, 0] ! j - [53929 / 270000, 0::real] ! j)\<^sup>2) = 71 / 270000"
    by (simp only: real_sqrt_abs abs_of_pos [of "71 / 270000 :: real", simplified])
  then show ?thesis
    using errorNorm_euclidean [OF quartic_step] by simp
qed

text \<open>
  C7 as stated fails: for the step of size 1 from \<open>(0, 0)\<close> at time 0 in the field
  \<open>(t\<^sup>4, 0)\<close> the two estimates differ by \<open>(71/270000, 0)\<close>; the solver's error norm is
  \<open>71/540000\<close>, which is neither the root mean square of that vector nor the root mean
  square divided by the length.
\<close>

theorem errorNorm_rms_counterexample:
  "errorNorm (snd (snd (rk45Step quartic 0 [0, 0] 1 ()))) = Some (71 / 540000)
   \<and> rms (snd (snd (rk45Step quartic 0 [0, 0] 1 ()))) \<noteq> 71 / 540000
   \<and> rms (snd (snd (rk45Step quartic 0 [0, 0] 1 ()))) / 2 \<noteq> 71 / 540000"
proof -
  have a: "rms [71 / 270000, 0] = sqrt ((71 / 270000)\<^sup>2 / 2)"
    by (simp add: rms_def)
  have b: "sqrt ((71 / 270000)\<^sup>2 / 2) = (71 / 270000) / sqrt 2"
    by (simp add: real_sqrt_divide)
  have c: "rms [71 / 270000, 0] = (71 / 270000) / sqrt 2"
    by (simp only: a b)
  have d: "(71 / 270000) / sqrt 2 \<noteq> (71 / 540000 :: real)"
    using sqrt2_less by (simp add: field_simps)
  have e: "(71 / 270000) / sqrt 2 / 2 \<noteq> (71 / 540000 :: real)"
    by (simp add: field_simps)
  show ?thesis
    using d e by (simp only: quartic_step snd_conv errorNorm_pair c) simp
qed

section \<open>Step-size control\<close>

text \<open>
  C6, as amended.  With a positive tolerance, an attempted step of size \<open>h\<close> (the stored
  step size, clamped so as not to pass \<open>tf\<close>) is accepted iff the error norm is below the
  tolerance or \<open>h\<close> is at most the minimum step size.  An accepted step advances time and
  state and records the new point; the next step size is
  \<open>min(maxStep, h * min(2.0, 0.9 * (tolerance/errorNorm)^0.2))\<close> when the error norm
  is positive and \<open>h\<close> unchanged when the error norm is zero.  A rejected step leaves time,
  state and the recorded points alone and sets the step size to
  \<open>max(minStep, h * max(0.1, 0.9 * (tolerance/errorNorm)^0.25))\<close>.
\<close>

theorem step_control:
  assumes "stepSize s = Some h0" and "0 < tolerance'"
    and "h = (if currentT s + h0 > tf then tf - currentT s else h0)"
    and "rk45Step func (currentT s) (currentY s) h params = (y5, y4, err)"
    and "errorNorm err = Some e"
  shows "solve_iter func params tf tolerance' minStep maxStep s =
     (if e < tolerance' \<or> h \<le> minStep
      then s\<lparr>currentT := currentT s + h, currentY := y5,
             tResult := tResult s @ [currentT s + h], yResult := yResult s @ [y5],
             stepSize := Some (if e > 0 then min maxStep (h * min 2.0 (0.9 * (tolerance' / e) powr 0.2))
                               else h)\<rparr>
      else s\<lparr>stepSize := Some (max minStep (h * max 0.1 (0.9 * (tolerance' / e) powr 0.25)))\<rparr>)"
proof (cases "e < tolerance' \<or> h \<le> minStep")
  case True
  then have "accepts (Some e) tolerance' h minStep" by (simp add: accepts_def)
  then show ?thesis
    using assms True by (simp add: solve_iter_def Let_def grow_def)
next
  case False
  then have na: "\<not> accepts (Some e) tolerance' h minStep" by (simp add: accepts_def)
  have "0 < e" using False assms(2) by linarith
  then show ?thesis
    using assms False na by (simp add: solve_iter_def Let_def shrink_def)
qed

text \<open>
  Three steps: an accepted one with error norm zero (the first step of the field
  \<open>y' = 0\<close> over \<open>[0, 1/4]\<close> with maximum step 1), a rejected one and an accepted one with
  a positive error norm (the field \<open>(t\<^sup>4, 0)\<close> with tolerance \<open>10\<^sup>-\<^sup>6\<close> and with tolerance 1).
\<close>

theorem step_control_witness:
  "solve_iter still () (1 / 4) (1 / 10 ^ 6) (1 / 10 ^ 8) 1 (initial_state 0 [0] 1)
     = \<lparr>currentT = 1 / 4, currentY = [0], stepSize = Some (1 / 4),
        tResult = [0, 1 / 4], yResult = [[0], [0]]\<rparr>
   \<and> solve_iter quartic () 1 (1 / 10 ^ 6) (1 / 10 ^ 8) 1 (initial_state 0 [0, 0] 1)
     = \<lparr>currentT = 0, currentY = [0, 0],
        stepSize = Some (max (1 / 10 ^ 8)
                     (1 * max 0.1 (0.9 * ((1 / 10 ^ 6) / (71 / 540000)) powr 0.25))),
        tResult = [0], yResult = [[0, 0]]\<rparr>
   \<and> solve_iter quartic () 1 1 (1 / 10 ^ 8) 1 (initial_state 0 [0, 0] 1)
     = \<lparr>currentT = 1, currentY = [1 / 5, 0],
        stepSize = Some (min 1 (1 * min 2.0 (0.9 * (1 / (71 / 540000)) powr 0.2))),
        tResult = [0, 1], yResult = [[0, 0], [1 / 5, 0]]\<rparr>"
proof -
  have a: "rk45Step still (currentT (initial_state 0 [0] 1)) (currentY (initial_state 0 [0] 1))
             (1 / 4) () = ([0], [0], [0])"
    by (simp add: initial_state_def still_step)
  have b: "rk45Step quartic (currentT (initial_state 0 [0, 0] 1))
             (currentY (initial_state 0 [0, 0] 1)) 1 ()
           = ([1 / 5, 0], [53929 / 270000, 0], [71 / 270000, 0])"
    by (simp add: initial_state_def quartic_step)
  have e0: "errorNorm [0] = Some 0" by (simp add: errorNorm_single)
  have e1: "errorNorm [71 / 270000, 0] = Some (71 / 540000)" by (simp add: errorNorm_pair)
  have 1: ?thesis if "True"
    using step_control [where s = "initial_state 0 [0] 1" and ?h0.0 = 1 and tolerance' = "1 / 10 ^ 6"
        and tf = "1 / 4" and h = "1 / 4" and minStep = "1 / 10 ^ 8" and maxStep = 1, OF _ _ _ a e0]
      step_control [where s = "initial_state 0 [0, 0] 1" and ?h0.0 = 1 and tolerance' = "1 / 10 ^ 6"
        and tf = 1 and h = 1 and minStep = "1 / 10 ^ 8" and maxStep = 1, OF _ _ _ b e1]
      step_control [where s = "initial_state 0 [0, 0] 1" and ?h0.0 = 1 and tolerance' = 1
        and tf = 1 and h = 1 and minStep = "1 / 10 ^ 8" and maxStep = 1, OF _ _ _ b e1]
    by (simp add: initial_state_def)
  show ?thesis using 1 by simp
qed

text \<open>
  C6 as stated fails at an error norm of zero.  The call
  \<open>solveODE(still, {initialConditions: [0], timeSpan: [0, 0.25], maxStepSize: 1})\<close>
  starts with step size 1, clamps the first step to 1/4 and accepts it with error norm 0.
  The claim's growth factor is then 2 and the next step size \<open>min(1, 1/4 * 2) = 1/2\<close>;
  the solver leaves the step size at 1/4.
\<close>

theorem step_growth_counterexample:
  "errorNorm (snd (snd (rk45Step still 0 [0] (1 / 4) ()))) = Some 0
   \<and> tResult (solve_iter still () (1 / 4) (1 / 10 ^ 6) (1 / 10 ^ 8) 1 (initial_state 0 [0] 1))
       = [0, 1 / 4]
   \<and> stepSize (solve_iter still () (1 / 4) (1 / 10 ^ 6) (1 / 10 ^ 8) 1 (initial_state 0 [0] 1))
       = Some (1 / 4)
   \<and> min 1 ((1 / 4) * spec_growth (1 / 10 ^ 6) 0) = 1 / 2"
  by (simp add: solve_iter_def initial_state_def still_step errorNorm_single accepts_def
      grow_def spec_growth_def Let_def)

section \<open>A run of the whole pipeline\<close>





lemma bit_length_numeral [simp]:
  "bit_length 0 = 0"
  "bit_length (numeral k) = Suc (bit_length (numeral k div 2))"
  "bit_length (Suc 0) = Suc 0"
  by (simp_all add: bit_length.simps [of 0] bit_length.simps [of "numeral k"]
      bit_length.simps [of "Suc 0"])

lemmas binary64_defs = numPoints_def js_times_def binary64_def binary64_exponent_def pow2_def
  round_half_even_def

lemma numPoints_two [simp]: "d * sr = 2 \<Longrightarrow> numPoints d sr = Some 2"
  by (simp add: binary64_defs Let_def)

lemma solve_loop_continue:
  "currentT s < tf \<Longrightarrow>
   solve_loop func params tf tol minStep maxStep s
     = solve_loop func params tf tol minStep maxStep (solve_iter func params tf tol minStep maxStep s)"
  by (subst solve_loop.simps) simp

lemma solve_loop_stop:
  "\<not> currentT s < tf \<Longrightarrow> solve_loop func params tf tol minStep maxStep s = Some s"
  by (subst solve_loop.simps) simp

lemma wave_term_rest: "wave_term 0 theta dzdt wave = dzdt"
  by (simp add: wave_term_def Let_def)

lemma ecgsyn_rest: "ecgsynODE t [1, 0, 0] flat_ode = [0, 0, 0]"
  by (simp add: ecgsynODE_def flat_ode_def Let_def wave_term_rest js_atan2_def)

lemma flat_step: "rk45Step ecgsynODE t [1, 0, 0] h flat_ode = ([1, 0, 0], [1, 0, 0], [0, 0, 0])"
  by (simp add: rk45Step_def weighted_def stage_input_def dp_defs ecgsyn_rest
      eval_nat_numeral upt_rec Let_def)

lemma errorNorm_zero3: "errorNorm [0, 0, 0] = Some 0"
  by (simp add: errorNorm_def)

lemma flat_iter:
  "0 < tol \<Longrightarrow> t + h \<le> tf \<Longrightarrow>
   solve_iter ecgsynODE flat_ode tf tol minStep maxStep
     \<lparr>currentT = t, currentY = [1, 0, 0], stepSize = Some h, tResult = ts, yResult = ys\<rparr>
   = \<lparr>currentT = t + h, currentY = [1, 0, 0], stepSize = Some h, tResult = ts @ [t + h],
       yResult = ys @ [[1, 0, 0]]\<rparr>"
  by (simp add: solve_iter_def flat_step errorNorm_zero3 accepts_def grow_def Let_def)

lemma flat_solve:
  assumes "0 < d" and "0 < tol"
  shows "solve_loop ecgsynODE flat_ode d tol minStep (d / 2) (initial_state 0 [1, 0, 0] (d / 2))
   = Some \<lparr>currentT = d, currentY = [1, 0, 0], stepSize = Some (d / 2),
            tResult = [0, d / 2, d], yResult = [[1, 0, 0], [1, 0, 0], [1, 0, 0]]\<rparr>"
proof -
  have 1: "solve_iter ecgsynODE flat_ode d tol minStep (d / 2) (initial_state 0 [1, 0, 0] (d / 2))
      = \<lparr>currentT = d / 2, currentY = [1, 0, 0], stepSize = Some (d / 2),
         tResult = [0, d / 2], yResult = [[1, 0, 0], [1, 0, 0]]\<rparr>"
    using assms by (simp add: initial_state_def flat_iter)
  have 2: "solve_iter ecgsynODE flat_ode d tol minStep (d / 2)
        \<lparr>currentT = d / 2, currentY = [1, 0, 0], stepSize = Some (d / 2),
         tResult = [0, d / 2], yResult = [[1, 0, 0], [1, 0, 0]]\<rparr>
      = \<lparr>currentT = d, currentY = [1, 0, 0], stepSize = Some (d / 2),
         tResult = [0, d / 2, d], yResult = [[1, 0, 0], [1, 0, 0], [1, 0, 0]]\<rparr>"
    using assms by (simp add: flat_iter)
  have "solve_loop ecgsynODE flat_ode d tol minStep (d / 2) (initial_state 0 [1, 0, 0] (d / 2))
      = solve_loop ecgsynODE flat_ode d tol minStep (d / 2)
          \<lparr>currentT = d / 2, currentY = [1, 0, 0], stepSize = Some (d / 2),
           tResult = [0, d / 2], yResult = [[1, 0, 0], [1, 0, 0]]\<rparr>"
    using assms
    by (subst solve_loop_continue) (simp_all add: initial_state_def 1 [unfolded initial_state_def])
  also have "\<dots> = solve_loop ecgsynODE flat_ode d tol minStep (d / 2)
          \<lparr>currentT = d, currentY = [1, 0, 0], stepSize = Some (d / 2),
           tResult = [0, d / 2, d], yResult = [[1, 0, 0], [1, 0, 0], [1, 0, 0]]\<rparr>"
    using assms by (subst solve_loop_continue) (simp_all add: 2)
  also have "\<dots> = Some \<lparr>currentT = d, currentY = [1, 0, 0], stepSize = Some (d / 2),
           tResult = [0, d / 2, d], yResult = [[1, 0, 0], [1, 0, 0], [1, 0, 0]]\<rparr>"
    by (subst solve_loop_stop) simp_all
  finally show ?thesis .
qed

lemma flat_bracket:
  assumes "0 < d"
  shows "find_bracket [0, d / 2, d] 0 0 = 0" and "find_bracket [0, d / 2, d] d 0 = 1"
  using assms
  by (simp_all add: find_bracket.simps [of _ _ 0] find_bracket.simps [of _ _ 1]
      find_bracket.simps [of _ _ "Suc 0"])

lemma flat_ecgsyn:
  assumes "0 < d" and "numPoints d sr = Some 2" and "0 < tol"
  shows "generateECGSyn d sr flat_params tol = Some (Returned ([0, d], [0, 0]))"
proof -
  have hr: "heartRate flat_params = 0" "respiratoryRate flat_params = Some 0"
    by (simp_all add: flat_params_def merge_custom_def merge_field_def merge_optional_def
        flat_custom_def)
  have w: "\<not> list_ex (\<lambda>wave. width wave = 0)
               [waveP flat_params, waveQ flat_params, waveR flat_params, waveS flat_params,
                waveT flat_params]"
    by (simp add: flat_params_def merge_custom_def merge_field_def flat_custom_def
        DEFAULT_ECGSYN_PARAMS_def)
  have o: "\<lparr>omega = 0,
      waves = [waveP flat_params, waveQ flat_params, waveR flat_params, waveS flat_params,
               waveT flat_params],
      z0Function = None\<rparr> = flat_ode"
    by (simp add: flat_ode_def)
  have m: "pick_maxStep None (Some 2) d = d / 2"
    using assms(1) by (simp add: pick_maxStep_def truthy_def Let_def)
  have g: "tInterp_grid 0 d 2 = [0, d]"
    by (simp add: tInterp_grid_def eval_nat_numeral upt_rec)
  have s: "solveODE ecgsynODE
             \<lparr>initialConditions = [1, 0, 0], timeSpan = (0, d), timePoints = Some 2,
              tolerance = Some tol, minStepSize = None, maxStepSize = None\<rparr> flat_ode
           = Some (Returned ([0, d], [[1, 0, 0], [1, 0, 0]]))"
    using assms by (simp add: solveODE_def Let_def m flat_solve g interp_point_def flat_bracket)
  show ?thesis
    unfolding generateECGSyn_def Let_def
    by (simp only: hr assms(2) truthy_def option.case if_True if_False o simp_thms s w) simp
qed

lemma enhanced_post:
  "ENHANCED_PATHOLOGY_PARAMS ''stemi'' \<noteq> None"
  "ENHANCED_PATHOLOGY_PARAMS ''hypokalemia'' \<noteq> None"
  "ENHANCED_PATHOLOGY_PARAMS ''atrialFibrillation'' \<noteq> None"
  "ENHANCED_PATHOLOGY_PARAMS ''completeHeartBlock'' \<noteq> None"
  by (simp_all add: ENHANCED_PATHOLOGY_PARAMS_def)

lemma post_process_plain:
  assumes "p = ''normal'' \<or> ENHANCED_PATHOLOGY_PARAMS p = None"
  shows "post_process this p params rnd k t e = Some ((t, e), k)"
proof -
  have "p \<noteq> ''stemi''" "p \<noteq> ''hypokalemia''" "p \<noteq> ''atrialFibrillation''"
    "p \<noteq> ''completeHeartBlock''"
    using assms enhanced_post by auto
  then show ?thesis by (simp add: post_process_def)
qed

lemma apply_pathology_plain:
  assumes "p = ''normal'' \<or> (ENHANCED_PATHOLOGY_PARAMS p = None \<and> PATHOLOGY_PARAMS p = None
             \<and> p \<notin> set object_prototype_names)"
  shows "apply_pathology p rnd k params = Returned (params, k)"
  using assms by (auto simp: apply_pathology_def js_get_def)

lemma unknown_not_in_tables:
  assumes "p \<notin> set pathology_names"
  shows "ENHANCED_PATHOLOGY_PARAMS p = None" and "PATHOLOGY_PARAMS p = None"
  using assms
  by (simp_all add: pathology_names_def ENHANCED_PATHOLOGY_PARAMS_def PATHOLOGY_PARAMS_def)

lemmas req_defs = reqDuration_def reqHeartRate_def reqPathology_def reqSamplingRate_def
  reqSolverTolerance_def

lemma flat_merge:
  "merge_custom (DEFAULT_ECGSYN_PARAMS\<lparr>heartRate := 60\<rparr>) flat_custom = flat_params"
  "heartRate flat_params = 0"
  "\<not> undefined_wave flat_custom"
  "custHeartRate flat_custom \<noteq> Undefined"
  by (simp_all add: flat_params_def merge_custom_def merge_field_def merge_optional_def
      flat_custom_def undefined_wave_def)

lemma flat_generate:
  assumes "0 < d"
    and "numPoints d (case sr of None \<Rightarrow> thisSamplingRate this | Some v \<Rightarrow> v) = Some 2"
    and "p = ''normal'' \<or> (ENHANCED_PATHOLOGY_PARAMS p = None \<and> PATHOLOGY_PARAMS p = None
             \<and> p \<notin> set object_prototype_names)"
  shows "generate this rnd k (flat_request sr d (Some p) None)
   = Some (Returned \<lparr>time = [0, d], signal = [0, 0],
        samplingRate = (case sr of None \<Rightarrow> thisSamplingRate this | Some v \<Rightarrow> v),
        metadata = \<lparr>mdDuration = d, mdHeartRate = 0, mdPathology = p, mdNoise = None\<rparr>\<rparr>, k)"
proof -
  have e: "generateECGSyn d (case sr of None \<Rightarrow> thisSamplingRate this | Some v \<Rightarrow> v)
             flat_params (1 / 10 ^ 6) = Some (Returned ([0, d], [0, 0]))"
    using assms(1,2) by (intro flat_ecgsyn) simp_all
  have pp: "p = ''normal'' \<or> ENHANCED_PATHOLOGY_PARAMS p = None"
  proof (rule disjE [OF assms(3)])
    assume "p = ''normal''"
    then show ?thesis by (rule disjI1)
  next
    assume "ENHANCED_PATHOLOGY_PARAMS p = None \<and> PATHOLOGY_PARAMS p = None
             \<and> p \<notin> set object_prototype_names"
    then have "ENHANCED_PATHOLOGY_PARAMS p = None" by (rule conjunct1)
    then show ?thesis by (rule disjI2)
  qed
  show ?thesis
    unfolding generate_def Let_def req_defs flat_request_def
    by (simp add: apply_pathology_plain [OF assms(3)] flat_merge e [simplified]
        post_process_plain [OF pp])
qed

lemma flat_generate_250:
  "generate \<lparr>thisSamplingRate = 250\<rparr> half 0 (flat_request None (1 / 125) (Some ''normal'') None)
     = Some (Returned \<lparr>time = [0, 1 / 125], signal = [0, 0], samplingRate = 250,
          metadata = \<lparr>mdDuration = 1 / 125, mdHeartRate = 0, mdPathology = ''normal'',
                      mdNoise = None\<rparr>\<rparr>, 0)"
  using flat_generate [where d = "1 / 125" and sr = None and p = "''normal''"
      and this = "\<lparr>thisSamplingRate = 250\<rparr>" and rnd = half and k = 0]
  by simp

section \<open>Pathology identifiers outside the enumeration\<close>

text \<open>
  C3, as amended.  For a pathology identifier that is outside the fourteen-member
  enumeration and is not the name of a member inherited from \<open>Object.prototype\<close>,
  \<open>generate\<close> raises no error of its own: it applies no parameter transform and no
  post-processing, so its answer is the answer for \<open>''normal''\<close> with the identifier
  written into \<open>metadata.pathology\<close>.
\<close>

theorem unknown_pathology_untransformed:
  assumes "p \<notin> set pathology_names" and "p \<notin> set object_prototype_names"
  shows "generate this rnd k (options\<lparr>optPathology := Some p\<rparr>)
         = map_option (relabel p) (generate this rnd k (options\<lparr>optPathology := Some ''normal''\<rparr>))"
proof -
  have u: "p = ''normal'' \<or> (ENHANCED_PATHOLOGY_PARAMS p = None \<and> PATHOLOGY_PARAMS p = None
             \<and> p \<notin> set object_prototype_names)"
    using unknown_not_in_tables [OF assms(1)] assms(2) by simp
  have up: "p = ''normal'' \<or> ENHANCED_PATHOLOGY_PARAMS p = None"
    using unknown_not_in_tables(1) [OF assms(1)] by simp
  show ?thesis
    unfolding generate_def Let_def req_defs
    by (simp add: apply_pathology_plain [OF u] apply_pathology_plain [OF disjI1 [OF refl]]
        post_process_plain [OF up] post_process_plain [OF disjI1 [OF refl]] relabel_def
        split: option.splits outcome.splits prod.splits)
qed

lemma wpw_unknown:
  "''wpw'' \<notin> set pathology_names" "''wpw'' \<notin> set object_prototype_names"
  by (simp_all add: pathology_names_def object_prototype_names_def)

lemma flat_request_pathology:
  "(flat_request sr d q tol)\<lparr>optPathology := Some p\<rparr> = flat_request sr d (Some p) tol"
  by (simp add: flat_request_def)

theorem unknown_pathology_untransformed_witness:
  "generate \<lparr>thisSamplingRate = 250\<rparr> half 0 (flat_request None (1 / 125) (Some ''wpw'') None)
   = map_option (relabel ''wpw'')
       (Some (Returned \<lparr>time = [0, 1 / 125], signal = [0, 0], samplingRate = 250,
          metadata = \<lparr>mdDuration = 1 / 125, mdHeartRate = 0, mdPathology = ''normal'',
                      mdNoise = None\<rparr>\<rparr>, 0))"
proof -
  have n: "generate \<lparr>thisSamplingRate = 250\<rparr> half 0 (flat_request None (1 / 125) (Some ''normal'') None)
     = Some (Returned \<lparr>time = [0, 1 / 125], signal = [0, 0], samplingRate = 250,
          metadata = \<lparr>mdDuration = 1 / 125, mdHeartRate = 0, mdPathology = ''normal'',
                      mdNoise = None\<rparr>\<rparr>, 0)"
    using flat_generate [where d = "1 / 125" and sr = None and p = "''normal''"
        and this = "\<lparr>thisSamplingRate = 250\<rparr>" and rnd = half and k = 0]
    by simp
  show ?thesis
    using unknown_pathology_untransformed [OF wpw_unknown, where this = "\<lparr>thisSamplingRate = 250\<rparr>"
        and rnd = half and k = 0 and options = "flat_request None (1 / 125) None None"]
    by (simp only: flat_request_pathology n)
qed

text \<open>
  C3 as stated fails: the identifier \<open>''wpw''\<close> is outside the enumeration, and the call
  returns a trace (the same samples as for \<open>''normal''\<close>) instead of failing.
\<close>

theorem unknown_pathology_counterexample:
  "''wpw'' \<notin> set pathology_names
   \<and> generate \<lparr>thisSamplingRate = 250\<rparr> half 0 (flat_request None (1 / 125) (Some ''wpw'') None)
     = Some (Returned \<lparr>time = [0, 1 / 125], signal = [0, 0], samplingRate = 250,
          metadata = \<lparr>mdDuration = 1 / 125, mdHeartRate = 0, mdPathology = ''wpw'',
                      mdNoise = None\<rparr>\<rparr>, 0)"
proof -
  have u: "''wpw'' = ''normal'' \<or> (ENHANCED_PATHOLOGY_PARAMS ''wpw'' = None
             \<and> PATHOLOGY_PARAMS ''wpw'' = None \<and> ''wpw'' \<notin> set object_prototype_names)"
    using unknown_not_in_tables [OF wpw_unknown(1)] wpw_unknown(2) by simp
  show ?thesis
    using flat_generate [where d = "1 / 125" and sr = None and this = "\<lparr>thisSamplingRate = 250\<rparr>"
        and rnd = half and k = 0, OF _ _ u] wpw_unknown(1)
    by simp
qed

section \<open>The sampling rate\<close>

text \<open>
  C4.  The constructor rejects every sampling rate below 250 Hz, but \<open>generate\<close> uses a
  per-call \<open>samplingRate\<close> unchecked: a generator built with 1000 Hz, asked for 100 Hz,
  returns a trace sampled at 100 Hz.
\<close>

theorem sampling_rate_override_unchecked:
  "(\<exists>e. new_ECGGenerator (Some sr) = Inl e) = (sr < 250)
   \<and> new_ECGGenerator (Some 1000) = Inr \<lparr>thisSamplingRate = 1000\<rparr>
   \<and> generate \<lparr>thisSamplingRate = 1000\<rparr> half 0 (flat_request (Some 100) (1 / 50) (Some ''normal'') None)
     = Some (Returned \<lparr>time = [0, 1 / 50], signal = [0, 0], samplingRate = 100,
          metadata = \<lparr>mdDuration = 1 / 50, mdHeartRate = 0, mdPathology = ''normal'',
                      mdNoise = None\<rparr>\<rparr>, 0)"
proof -
  have g: "generate \<lparr>thisSamplingRate = 1000\<rparr> half 0
             (flat_request (Some 100) (1 / 50) (Some ''normal'') None)
     = Some (Returned \<lparr>time = [0, 1 / 50], signal = [0, 0], samplingRate = 100,
          metadata = \<lparr>mdDuration = 1 / 50, mdHeartRate = 0, mdPathology = ''normal'',
                      mdNoise = None\<rparr>\<rparr>, 0)"
    using flat_generate [where d = "1 / 50" and sr = "Some 100" and p = "''normal''"
        and this = "\<lparr>thisSamplingRate = 1000\<rparr>" and rnd = half and k = 0]
    by simp
  show ?thesis
    by (simp add: g new_ECGGenerator_def)
qed

section \<open>Lead derivation\<close>

lemma lead_signal_plain:
  assumes "lead \<notin> set object_prototype_names"
  shows "lead_signal lead s
         = Returned ((case leadTransforms lead of None \<Rightarrow> (\<lambda>s. s) | Some f \<Rightarrow> f) s)"
  using assms by (simp add: lead_signal_def js_get_def split: option.splits)

lemma derive_leads_plain:
  assumes "set leads \<inter> set object_prototype_names = {}"
  shows "derive_leads leadII leads result
         = Returned (\<lambda>l. if l \<in> set leads
               then Some (leadII\<lparr>signal :=
                      (case leadTransforms l of None \<Rightarrow> (\<lambda>s. s) | Some f \<Rightarrow> f) (signal leadII)\<rparr>)
               else result l)"
  using assms
proof (induction leads arbitrary: result)
  case Nil
  show ?case by simp
next
  case (Cons lead leads)
  have a: "lead \<notin> set object_prototype_names"
    and b: "set leads \<inter> set object_prototype_names = {}"
    using Cons.prems by auto
  show ?case
    by (simp add: lead_signal_plain [OF a] Cons.IH [OF b] fun_eq_iff)
qed

lemma lead_table:
  "list_all (\<lambda>(l, c). l \<notin> set object_prototype_names
       \<and> (\<exists>f. leadTransforms l = Some f \<and> (\<forall>s. f s = map (\<lambda>v. v * c) s)))
     lead_scalars"
  by (simp add: lead_scalars_def leadTransforms_def object_prototype_names_def)

lemma lead_scalars_transform:
  assumes "map_of lead_scalars lead = Some c"
  shows "lead \<notin> set object_prototype_names"
    and "(case leadTransforms lead of None \<Rightarrow> (\<lambda>s. s) | Some f \<Rightarrow> f) s = map (\<lambda>v. v * c) s"
proof -
  have m: "(lead, c) \<in> set lead_scalars"
    using assms by (rule map_of_SomeD)
  have t: "lead \<notin> set object_prototype_names
       \<and> (\<exists>f. leadTransforms lead = Some f \<and> (\<forall>s. f s = map (\<lambda>v. v * c) s))"
    using lead_table m unfolding list_all_iff by fastforce
  show "lead \<notin> set object_prototype_names" using t by (rule conjunct1)
  obtain f where "leadTransforms lead = Some f" and "\<forall>s. f s = map (\<lambda>v. v * c) s"
    using t by blast
  then show "(case leadTransforms lead of None \<Rightarrow> (\<lambda>s. s) | Some f \<Rightarrow> f) s = map (\<lambda>v. v * c) s"
    by simp
qed

lemma wander_generate:
  "generate \<lparr>thisSamplingRate = 256\<rparr> half 0 wander_request
     = Some (Returned \<lparr>time = [0, 1 / 128], signal = [0, 1 / 10], samplingRate = 256,
          metadata = \<lparr>mdDuration = 1 / 128, mdHeartRate = 0, mdPathology = ''normal'',
                      mdNoise = Some wander\<rparr>\<rparr>, 0)"
proof -
  have e: "generateECGSyn (1 / 128) 256 flat_params (1 / 10 ^ 6)
             = Some (Returned ([0, 1 / 128], [0, 0]))"
    by (intro flat_ecgsyn) simp_all
  have s: "sin (2 * pi * 32 * (1 / 128)) = 1"
  proof -
    have "2 * pi * 32 * (1 / 128) = pi / 2" by simp
    then show ?thesis by (simp only: sin_pi_half)
  qed
  have n: "addNoise [0, 0] [0, 1 / 128] wander half 0 = ([0, 1 / 10], 0)"
    using s by (simp add: addNoise_def wander_def Let_def upt_rec)
  show ?thesis
    unfolding generate_def Let_def req_defs wander_request_def flat_request_def
    by (simp add: apply_pathology_plain [OF disjI1 [OF refl]] flat_merge e [simplified]
        post_process_plain [OF disjI1 [OF refl]] n [simplified])
qed

lemma inherited_not_in_table:
  assumes "name \<in> set object_prototype_names"
  shows "leadTransforms name = None"
proof -
  have "list_all (\<lambda>n. leadTransforms n = None) object_prototype_names"
    by (simp add: object_prototype_names_def leadTransforms_def)
  then show ?thesis using assms unfolding list_all_iff by blast
qed

lemma derive_leads_inherited:
  assumes "set leads \<inter> set object_prototype_names = {}"
    and "name \<in> set object_prototype_names"
    and "name \<noteq> ''constructor''" and "name \<noteq> ''toString''"
  shows "\<exists>e. derive_leads leadII (leads @ name # rest) result = Threw e"
  using assms(1)
proof (induction leads arbitrary: result)
  case Nil
  have "lead_signal name (signal leadII) = call_inherited name (signal leadII)"
    using assms(2) by (simp add: lead_signal_def js_get_def inherited_not_in_table)
  then show ?case
    using assms(3,4) by (simp add: call_inherited_def)
next
  case (Cons lead leads)
  have a: "lead \<notin> set object_prototype_names"
    and b: "set leads \<inter> set object_prototype_names = {}"
    using Cons.prems by auto
  show ?case
    using Cons.IH [OF b] by (simp add: lead_signal_plain [OF a])
qed

text \<open>
  C8.  From a generated base trace, \<open>generateMultiLead\<close> derives every requested lead of
  the fixed table by multiplying the base Lead-II signal pointwise by that lead's scalar,
  with time array, sampling rate and metadata those of the base result, when no requested
  name is a member inherited from \<open>Object.prototype\<close>.  When such a name (other than
  \<open>constructor\<close> and \<open>toString\<close>) is among the requested ones, the call raises a TypeError
  and no lead of the table gets a result.
\<close>

theorem multi_lead_scaling:
  assumes "generate this rnd k options = Some (Returned leadII, k')"
    and "set leads \<inter> set object_prototype_names = {}"
  shows "(\<exists>result. generateMultiLead this rnd k options (Some leads) = Some (Returned result, k')
           \<and> (\<forall>lead c. lead \<in> set leads \<and> map_of lead_scalars lead = Some c
                 \<longrightarrow> result lead = Some (leadII\<lparr>signal := map (\<lambda>v. v * c) (signal leadII)\<rparr>)))
         \<and> (name \<in> set object_prototype_names \<and> name \<noteq> ''constructor'' \<and> name \<noteq> ''toString''
             \<longrightarrow> (\<exists>e. generateMultiLead this rnd k options (Some (leads @ name # rest))
                        = Some (Threw e, k')))"
proof -
  have g: "generateMultiLead this rnd k options (Some l)
        = Some (derive_leads leadII l Map.empty, k')" for l
    using assms(1) by (simp add: generateMultiLead_def)
  have a: "\<exists>result. generateMultiLead this rnd k options (Some leads) = Some (Returned result, k')
           \<and> (\<forall>lead c. lead \<in> set leads \<and> map_of lead_scalars lead = Some c
                 \<longrightarrow> result lead = Some (leadII\<lparr>signal := map (\<lambda>v. v * c) (signal leadII)\<rparr>))"
    by (simp add: g derive_leads_plain [OF assms(2)] lead_scalars_transform(2))
  have b: "\<exists>e. generateMultiLead this rnd k options (Some (leads @ name # rest)) = Some (Threw e, k')"
    if "name \<in> set object_prototype_names" "name \<noteq> ''constructor''" "name \<noteq> ''toString''"
    using derive_leads_inherited [OF assms(2) that, of leadII rest Map.empty] by (auto simp: g)
  show ?thesis using a b by blast
qed

theorem multi_lead_scaling_witness:
  "\<exists>result e. generateMultiLead \<lparr>thisSamplingRate = 256\<rparr> half 0 wander_request (Some [''II'', ''aVR''])
             = Some (Returned result, 0)
     \<and> result ''II'' = Some \<lparr>time = [0, 1 / 128], signal = [0, 1 / 10], samplingRate = 256,
          metadata = \<lparr>mdDuration = 1 / 128, mdHeartRate = 0, mdPathology = ''normal'',
                      mdNoise = Some wander\<rparr>\<rparr>
     \<and> result ''aVR'' = Some \<lparr>time = [0, 1 / 128], signal = [0, - (1 / 20)], samplingRate = 256,
          metadata = \<lparr>mdDuration = 1 / 128, mdHeartRate = 0, mdPathology = ''normal'',
                      mdNoise = Some wander\<rparr>\<rparr>
     \<and> generateMultiLead \<lparr>thisSamplingRate = 256\<rparr> half 0 wander_request
           (Some [''II'', ''aVR'', ''valueOf'']) = Some (Threw e, 0)"
proof -
  let ?b = "\<lparr>time = [0, 1 / 128], signal = [0, 1 / 10], samplingRate = 256,
          metadata = \<lparr>mdDuration = 1 / 128, mdHeartRate = 0, mdPathology = ''normal'',
                      mdNoise = Some wander\<rparr>\<rparr>"
  have d: "set [''II'', ''aVR''] \<inter> set object_prototype_names = {}"
    by (simp add: object_prototype_names_def)
  have v: "''valueOf'' \<in> set object_prototype_names \<and> ''valueOf'' \<noteq> ''constructor''
           \<and> ''valueOf'' \<noteq> ''toString''"
    by (simp add: object_prototype_names_def)
  have a: "map_of lead_scalars ''aVR'' = Some (- 0.5)" "map_of lead_scalars ''II'' = Some 1"
    by (simp_all add: lead_scalars_def)
  note t = multi_lead_scaling [OF wander_generate d, of "''valueOf''" "[]"]
  obtain result where
    r: "generateMultiLead \<lparr>thisSamplingRate = 256\<rparr> half 0 wander_request (Some [''II'', ''aVR''])
             = Some (Returned result, 0)"
    and s: "\<forall>lead c. lead \<in> set [''II'', ''aVR''] \<and> map_of lead_scalars lead = Some c
                 \<longrightarrow> result lead = Some (?b\<lparr>signal := map (\<lambda>v. v * c) (signal ?b)\<rparr>)"
    using t by blast
  obtain e where e: "generateMultiLead \<lparr>thisSamplingRate = 256\<rparr> half 0 wander_request
           (Some ([''II'', ''aVR''] @ ''valueOf'' # [])) = Some (Threw e, 0)"
    using t v by blast
  have "result ''aVR'' = Some (?b\<lparr>signal := map (\<lambda>v. v * (- 0.5)) (signal ?b)\<rparr>)"
    using s [rule_format, of "''aVR''" "- 0.5"] a by simp
  moreover have "result ''II'' = Some (?b\<lparr>signal := map (\<lambda>v. v * 1) (signal ?b)\<rparr>)"
    using s [rule_format, of "''II''" 1] a by simp
  ultimately show ?thesis using r e by auto
qed

text \<open>
  C10.  A lead name that is not in the table but names a member inherited from
  \<open>Object.prototype\<close> does not reach the identity fallback: for \<open>''__proto__''\<close> the
  lookup yields an object, which is not callable, and the call raises a TypeError; so does
  every list of leads that starts with \<open>''valueOf''\<close>.
\<close>

theorem inherited_lead_name_throws:
  "leadTransforms ''__proto__'' = None
   \<and> generateMultiLead \<lparr>thisSamplingRate = 250\<rparr> half 0
        (flat_request None (1 / 125) (Some ''normal'') None) (Some [''__proto__''])
      = Some (Threw (TypeError ''not a function''), 0)
   \<and> derive_leads leadII (''valueOf'' # leads) result
      = Threw (TypeError ''Cannot convert undefined or null to object'')"
  by (simp add: generateMultiLead_def flat_generate_250 lead_signal_def js_get_def
      leadTransforms_def object_prototype_names_def call_inherited_def)

section \<open>Invariants of the solver loop\<close>

lemma solve_loop_invariant:
  assumes "solve_loop func params tf tol minStep maxStep s = Some s'"
    and "I s"
    and "\<And>s. I s \<Longrightarrow> currentT s < tf \<Longrightarrow> I (solve_iter func params tf tol minStep maxStep s)"
  shows "I s' \<and> \<not> currentT s' < tf"
proof -
  have step: "\<forall>s. I s \<and> currentT s < tf \<longrightarrow> I (solve_iter func params tf tol minStep maxStep s)"
    using assms(3) by blast
  show ?thesis
    using assms(1) step assms(2)
  proof (induction func params tf tol minStep maxStep s s' rule: solve_loop.raw_induct)
    case (1 loop func params tf tol minStep maxStep s s')
    note IH = 1(1) and eq = 1(2) and run = 1(3) and step = 1(4) and inv = 1(5)
    show ?case
    proof (cases "currentT s < tf")
      case True
      have a: "loop func params tf tol minStep maxStep
                 (solve_iter func params tf tol minStep maxStep s) = Some s'"
        using eq True by simp
      have b: "solve_loop func params tf tol minStep maxStep
                 (solve_iter func params tf tol minStep maxStep s) = Some s'"
        using run
        by (simp only: solve_loop_continue [OF True, of func params tol minStep maxStep])
      have c: "I (solve_iter func params tf tol minStep maxStep s)"
        using step inv True by blast
      show ?thesis by (rule IH [OF a b step c])
    next
      case False
      then have "s' = s" using eq by simp
      then show ?thesis using False inv by simp
    qed
  qed (rule assms(1))
qed

lemma solve_iter_lengths:
  "length (tResult s) = length (yResult s) \<Longrightarrow>
   length (tResult (solve_iter func params tf tol minStep maxStep s))
     = length (yResult (solve_iter func params tf tol minStep maxStep s))"
  by (simp add: solve_iter_def Let_def split: option.splits prod.splits)

lemma solve_loop_lengths:
  assumes "solve_loop func params tf tol minStep maxStep (initial_state t0 y0 maxStep) = Some s"
  shows "length (tResult s) = length (yResult s)"
proof -
  have "length (tResult s) = length (yResult s) \<and> \<not> currentT s < tf"
  proof (rule solve_loop_invariant [OF assms, where I = "\<lambda>s. length (tResult s) = length (yResult s)"])
    show "length (tResult (initial_state t0 y0 maxStep)) = length (yResult (initial_state t0 y0 maxStep))"
      by (simp add: initial_state_def)
  next
    fix s :: loop_state
    assume "length (tResult s) = length (yResult s)"
    then show "length (tResult (solve_iter func params tf tol minStep maxStep s))
               = length (yResult (solve_iter func params tf tol minStep maxStep s))"
      by (rule solve_iter_lengths)
  qed
  then show ?thesis by (rule conjunct1)
qed

lemma interpolateMulti_length:
  "interpolateMulti tO yO tNew = Some yI \<Longrightarrow> length yI = length tNew"
  by (induction tNew arbitrary: yI) (auto split: option.splits)

lemma solveODE_lengths:
  assumes "solveODE func options params = Some (Returned (t, y))"
  shows "length t = length y"
    and "timePoints options = Some n \<Longrightarrow> 0 < n \<Longrightarrow> int (length t) = n"
proof -
  obtain t0 tf where ts: "timeSpan options = (t0, tf)" by (cases "timeSpan options")
  let ?mx = "pick_maxStep (maxStepSize options) (timePoints options) (tf - t0)"
  let ?tol = "case tolerance options of None \<Rightarrow> 1 / 10 ^ 6 | Some v \<Rightarrow> v"
  let ?mn = "case minStepSize options of None \<Rightarrow> 1 / 10 ^ 8 | Some v \<Rightarrow> v"
  obtain s where s: "solve_loop func params tf ?tol ?mn ?mx
                       (initial_state t0 (initialConditions options) ?mx) = Some s"
    using assms by (auto simp: solveODE_def ts Let_def split: if_splits option.splits)
  have l: "length (tResult s) = length (yResult s)" by (rule solve_loop_lengths [OF s])
  have r: "(t, y) = (tResult s, yResult s)
           \<or> (\<exists>m yI. timePoints options = Some m \<and> m \<noteq> 0 \<and> int (length (tResult s)) \<noteq> m
                \<and> interpolateMulti (tResult s) (yResult s) (tInterp_grid t0 (tf - t0) m) = Some yI
                \<and> t = tInterp_grid t0 (tf - t0) m \<and> y = yI)"
    using assms s by (auto simp: solveODE_def ts Let_def split: if_splits option.splits)
  show "length t = length y"
    using r l by (auto dest: interpolateMulti_length)
  show "int (length t) = n" if "timePoints options = Some n" "0 < n"
    using r that assms s
    by (auto simp: solveODE_def ts Let_def tInterp_grid_def split: if_splits option.splits)
qed

section \<open>The shape of a generated trace\<close>

lemma generateECGSyn_shape:
  assumes "generateECGSyn d sr params tol = Some (Returned (t, e))"
  shows "length t = length e"
    and "\<exists>n. numPoints d sr = Some n \<and> (0 < n \<longrightarrow> int (length t) = n)"
proof -
  obtain n p y where n: "numPoints d sr = Some n"
    and s: "solveODE ecgsynODE
              \<lparr>initialConditions = [1, 0, 0], timeSpan = (0, d),
               timePoints = Some n, tolerance = Some tol,
               minStepSize = None, maxStepSize = None\<rparr> p = Some (Returned (t, y))"
    and e: "e = map (\<lambda>state. state ! 2 * 80) y"
    using assms
    by (auto simp: generateECGSyn_def Let_def split: option.splits outcome.splits if_splits)
  show "length t = length e"
    using solveODE_lengths(1) [OF s] e by simp
  have "int (length t) = n" if "0 < n"
    using solveODE_lengths(2) [OF s, of n] that by simp
  then show "\<exists>n. numPoints d sr = Some n \<and> (0 < n \<longrightarrow> int (length t) = n)"
    using n by blast
qed

lemma addNoise_length: "length (fst (addNoise s t noise rnd k)) = length s"
  by (simp add: addNoise_def Let_def split: option.splits prod.splits)

lemma generate_shape:
  assumes "generate this rnd k options = Some (Returned r, k')"
  shows "\<exists>params k1 t0 e0 e1 k2.
           generateECGSyn (reqDuration options) (reqSamplingRate this options) params
               (reqSolverTolerance options) = Some (Returned (t0, e0))
           \<and> post_process this (reqPathology options) params rnd k1 t0 e0 = Some ((time r, e1), k2)
           \<and> length (signal r) = length e1"
proof -
  obtain params1 k1 where a: "apply_pathology (reqPathology options) rnd k
          (DEFAULT_ECGSYN_PARAMS\<lparr>heartRate := reqHeartRate options\<rparr>) = Returned (params1, k1)"
    using assms by (auto simp: generate_def Let_def split: outcome.splits)
  have c: "\<not> (0 < reqDuration options
              \<and> (case optCustomParams options of None \<Rightarrow> False | Some c \<Rightarrow> undefined_wave c))"
    "\<not> (case optCustomParams options of None \<Rightarrow> False | Some c \<Rightarrow> custHeartRate c = Undefined)"
    using assms a by (auto simp: generate_def Let_def split: if_splits)
  let ?p = "case optCustomParams options of None \<Rightarrow> params1 | Some c \<Rightarrow> merge_custom params1 c"
  obtain t0 e0 where g: "generateECGSyn (reqDuration options) (reqSamplingRate this options) ?p
               (reqSolverTolerance options) = Some (Returned (t0, e0))"
    using assms a c by (auto simp: generate_def Let_def split: outcome.splits option.splits)
  obtain t1 e1 k2 where pp: "post_process this (reqPathology options) ?p rnd k1 t0 e0
                               = Some ((t1, e1), k2)"
    using assms a g c by (auto simp: generate_def Let_def split: outcome.splits option.splits)
  have r: "time r = t1 \<and> length (signal r) = length e1"
  proof (cases "optNoise options")
    case None
    then show ?thesis
      using assms a g pp c by (auto simp: generate_def Let_def)
  next
    case (Some noise)
    obtain e2' k3' where n': "addNoise e1 t1 noise rnd k2 = (e2', k3')"
      by (cases "addNoise e1 t1 noise rnd k2")
    have "length e2' = length e1" using addNoise_length [of e1 t1 noise rnd k2] n' by simp
    then show ?thesis
      using assms a g pp c Some n' by (auto simp: generate_def Let_def)
  qed
  show ?thesis using g pp r by blast
qed


lemma post_process_other:
  assumes "post_process this p params rnd k t e = Some ((t1, e1), k2)"
    and "p \<noteq> ''atrialFibrillation''"
  shows "t1 = t" and "length e1 = length e"
  using assms
  by (auto simp: post_process_def addSTElevation_def addUWaves_def simulateAVDissociation_def
      Let_def split: if_splits)

lemma copy_segment_lengths:
  assumes "copy_segment time' signal' avgRR startTime endTime si nt ns = (si', nt', ns')"
    and "length nt = length ns"
  shows "length nt' = length ns'"
  using assms
proof (induction time' signal' avgRR startTime endTime si nt ns rule: copy_segment.induct)
  case (1 time' signal' avgRR startTime endTime si nt ns)
  show ?case
  proof (cases "si < length time' \<and> (case endTime of None \<Rightarrow> True | Some e \<Rightarrow> time' ! si < e)")
    case False
    then show ?thesis
      using "1.prems" by (subst (asm) copy_segment.simps) auto
  next
    case True
    let ?a = "startTime + (case avgRR of None \<Rightarrow> time' ! si | Some a \<Rightarrow> js_rem (time' ! si) a)"
    show ?thesis
    proof (cases "?a \<le> last time'")
      case le: True
      have "copy_segment time' signal' avgRR startTime endTime (si + 1) (nt @ [?a])
              (ns @ [signal' ! si]) = (si', nt', ns')"
        using "1.prems"(1) True le by (subst (asm) copy_segment.simps) (simp add: Let_def)
      then show ?thesis
        using "1.IH"(1) [OF True refl le] "1.prems"(2) by simp
    next
      case gt: False
      have "copy_segment time' signal' avgRR startTime endTime (si + 1) nt ns = (si', nt', ns')"
        using "1.prems"(1) True gt by (subst (asm) copy_segment.simps) (simp add: Let_def)
      then show ?thesis
        using "1.IH"(2) [OF True refl gt] "1.prems"(2) by simp
    qed
  qed
qed

lemma irregular_loop_invariant:
  assumes "irregular_loop time' signal' hr sr rnd s = Some s'"
    and "I s"
    and "\<And>s. I s \<Longrightarrow> time' \<noteq> [] \<Longrightarrow> irCurrentTime s < last time' \<Longrightarrow> hr \<noteq> 0
           \<Longrightarrow> I (irregular_beat time' signal' (60 / hr) sr rnd s)"
    and "\<And>s. I s \<Longrightarrow> time' \<noteq> [] \<Longrightarrow> irCurrentTime s < last time' \<Longrightarrow> hr = 0
           \<Longrightarrow> I (endless_beat time' signal' s)"
  shows "I s'"
proof -
  have step: "\<forall>s. I s \<and> time' \<noteq> [] \<and> irCurrentTime s < last time'
                \<longrightarrow> (hr \<noteq> 0 \<longrightarrow> I (irregular_beat time' signal' (60 / hr) sr rnd s))
                    \<and> (hr = 0 \<longrightarrow> I (endless_beat time' signal' s))"
    using assms(3,4) by blast
  show ?thesis
    using assms(1) step assms(2)
  proof (induction time' signal' hr sr rnd s s' rule: irregular_loop.raw_induct)
    case (1 loop time' signal' hr sr rnd s s')
    note IH = 1(1) and eq = 1(2) and run = 1(3) and step = 1(4) and inv = 1(5)
    let ?c = "time' \<noteq> [] \<and> irCurrentTime s < last time' \<and> irSourceIndex s + 1 < length signal'"
    show ?case
    proof (cases ?c)
      case False
      then have "s' = s" using eq by auto
      then show ?thesis using inv by simp
    next
      case True
      show ?thesis
      proof (cases "hr = 0")
        case z: True
        then have "s' = endless_beat time' signal' s" using eq True by auto
        then show ?thesis using step inv True z by blast
      next
        case nz: False
        have a: "loop time' signal' hr sr rnd (irregular_beat time' signal' (60 / hr) sr rnd s) = Some s'"
          using eq True nz by auto
        have b: "irregular_loop time' signal' hr sr rnd
                   (irregular_beat time' signal' (60 / hr) sr rnd s) = Some s'"
          using run True nz by (subst (asm) irregular_loop.simps) auto
        have c: "I (irregular_beat time' signal' (60 / hr) sr rnd s)"
          using step inv True nz by blast
        show ?thesis by (rule IH [OF a b step c])
      qed
    qed
  qed (rule assms(1))
qed

lemma makeIrregular_lengths:
  assumes "makeIrregular this time' signal' hr rnd k = Some ((t1, e1), k2)"
  shows "length t1 = length e1"
proof -
  let ?s0 = "\<lparr>irCurrentTime = 0, irSourceIndex = 0, irNewTime = [], irNewSignal = [], irK = k\<rparr>"
  obtain s where s: "irregular_loop time' signal' hr (thisSamplingRate this) rnd ?s0 = Some s"
    and r: "t1 = irNewTime s" "e1 = irNewSignal s"
    using assms by (auto simp: makeIrregular_def split: option.splits)
  have "length (irNewTime s) = length (irNewSignal s)"
  proof (rule irregular_loop_invariant [OF s, where I = "\<lambda>s. length (irNewTime s) = length (irNewSignal s)"])
    show "length (irNewTime ?s0) = length (irNewSignal ?s0)" by simp
  next
    fix u :: irr_state
    assume i: "length (irNewTime u) = length (irNewSignal u)"
    show "length (irNewTime (irregular_beat time' signal' (60 / hr) (thisSamplingRate this) rnd u))
          = length (irNewSignal (irregular_beat time' signal' (60 / hr) (thisSamplingRate this) rnd u))"
      using i by (auto simp: irregular_beat_def Let_def split: prod.splits dest: copy_segment_lengths)
  next
    fix u :: irr_state
    assume i: "length (irNewTime u) = length (irNewSignal u)"
    show "length (irNewTime (endless_beat time' signal' u))
          = length (irNewSignal (endless_beat time' signal' u))"
      using i by (auto simp: endless_beat_def Let_def split: prod.splits dest: copy_segment_lengths)
  qed
  then show ?thesis using r by simp
qed

lemma post_process_lengths:
  assumes "post_process this p params rnd k t e = Some ((t1, e1), k2)"
    and "length t = length e"
  shows "length t1 = length e1"
proof (cases "p = ''atrialFibrillation''")
  case False
  then show ?thesis using post_process_other [OF assms(1)] assms(2) by simp
next
  case True
  then show ?thesis
    using assms(1)
    by (auto simp: post_process_def Let_def split: prod.splits dest: makeIrregular_lengths)
qed

section \<open>Order of the time array\<close>








lemma tInterp_grid_ends:
  assumes "tInterp_grid t0 d n \<noteq> []"
  shows "hd (tInterp_grid t0 d n) = t0" and "n \<noteq> 1 \<Longrightarrow> last (tInterp_grid t0 d n) = t0 + d"
proof -
  have n: "0 < nat n" using assms by (simp add: tInterp_grid_def)
  show "hd (tInterp_grid t0 d n) = t0"
    using n by (simp add: tInterp_grid_def hd_map upt_conv_Cons)
  show "last (tInterp_grid t0 d n) = t0 + d" if "n \<noteq> 1"
  proof -
    have "real (nat n - 1) = real_of_int (n - 1)" using n by simp
    moreover have "real_of_int (n - 1) \<noteq> 0" using that by simp
    ultimately show ?thesis
      using n by (simp add: tInterp_grid_def last_map)
  qed
qed




section \<open>The uniform grid\<close>

lemma errorNorm_nonneg:
  assumes "errorNorm err = Some e"
  shows "0 \<le> e"
proof -
  have "0 \<le> (\<Sum>x\<leftarrow>err. x\<^sup>2)" by (rule sum_list_nonneg) auto
  then have "0 \<le> sqrt (\<Sum>x\<leftarrow>err. x\<^sup>2) / real (length err)" by simp
  then show ?thesis
    using assms by (auto simp: errorNorm_def foldl_squares split: if_splits)
qed

lemma grow_bounded:
  assumes "0 \<le> tol" and "h \<le> maxStep" and "grow en tol maxStep h = Some h'"
  shows "h' \<le> maxStep"
  using assms by (auto simp: grow_def split: option.splits if_splits)

lemma shrink_bounded:
  assumes "0 \<le> tol" and "h \<le> maxStep" and "minStep \<le> maxStep" and "0 < maxStep"
    and "\<not> accepts (Some e) tol h minStep"
    and "shrink (Some e) tol minStep remaining h = Some h'"
  shows "h' \<le> maxStep"
proof -
  have te: "tol \<le> e" using assms(5) by (simp add: accepts_def)
  show ?thesis
  proof (cases "0 < e")
    case False
    then show ?thesis using assms(1,6) by (simp add: shrink_def split: if_splits)
  next
    case True
    have x: "0 \<le> tol / e" "tol / e \<le> 1" using assms(1) te True by simp_all
    have "(tol / e) powr 0.25 \<le> 1" using x by (intro powr_le1) simp_all
    then have f1: "max 0.1 (0.9 * (tol / e) powr 0.25) \<le> 1" by simp
    have f0: "0 \<le> max 0.1 (0.9 * (tol / e) powr 0.25)" by simp
    have "h * max 0.1 (0.9 * (tol / e) powr 0.25) \<le> maxStep"
    proof (cases "0 \<le> h")
      case True
      then have "h * max 0.1 (0.9 * (tol / e) powr 0.25) \<le> h * 1"
        using f1 by (intro mult_left_mono) simp_all
      then show ?thesis using assms(2) by simp
    next
      case False
      then have "h * max 0.1 (0.9 * (tol / e) powr 0.25) \<le> 0"
        using f0 by (intro mult_nonpos_nonneg) simp_all
      then show ?thesis using assms(4) by simp
    qed
    then show ?thesis
      using assms(1,3,6) True by (simp add: shrink_def split: if_splits)
  qed
qed


lemma solve_iter_paced:
  assumes "paced_run t0 maxStep tol s" and "currentT s < tf" and "minStep \<le> maxStep"
    and "0 < maxStep"
  shows "paced_run t0 maxStep tol (solve_iter func params tf tol minStep maxStep s)"
proof (cases "stepSize s")
  case None
  then show ?thesis using assms(1) by (simp add: solve_iter_def)
next
  case (Some h0)
  define h where "h = (if currentT s + h0 > tf then tf - currentT s else h0)"
  have hb: "h \<le> maxStep" if "0 \<le> tol"
    using assms(1) Some that by (auto simp: h_def paced_run_def)
  obtain y5 y4 err where rk: "rk45Step func (currentT s) (currentY s) h params = (y5, y4, err)"
    by (cases "rk45Step func (currentT s) (currentY s) h params")
  have l: "currentT s - t0 \<le> (real (length (tResult s)) - 1) * maxStep"
    using assms(1) by (simp add: paced_run_def)
  show ?thesis
  proof (cases "accepts (errorNorm err) tol h minStep")
    case True
    have e: "solve_iter func params tf tol minStep maxStep s
             = s\<lparr>currentT := currentT s + h, currentY := y5,
                  tResult := tResult s @ [currentT s + h], yResult := yResult s @ [y5],
                  stepSize := grow (errorNorm err) tol maxStep h\<rparr>"
      using Some rk True by (simp add: solve_iter_def Let_def h_def)
    have hm: "h \<le> maxStep"
    proof (cases "0 \<le> tol")
      case True
      then show ?thesis by (rule hb)
    next
      case False
      have "h \<le> minStep"
        using \<open>accepts (errorNorm err) tol h minStep\<close> False errorNorm_nonneg [of err]
        by (auto simp: accepts_def split: option.splits)
      then show ?thesis using assms(3) by simp
    qed
    have g: "0 \<le> tol \<longrightarrow> (case grow (errorNorm err) tol maxStep h of
               None \<Rightarrow> True | Some h' \<Rightarrow> h' \<le> maxStep)"
      using grow_bounded [of tol h maxStep "errorNorm err"] hb by (auto split: option.splits)
    have "currentT s + h - t0 \<le> (real (length (tResult s)) - 1) * maxStep + maxStep"
      using l hm by simp
    also have "\<dots> = (real (length (tResult s @ [currentT s + h])) - 1) * maxStep"
      by (simp add: algebra_simps)
    finally show ?thesis
      using g by (simp add: e paced_run_def)
  next
    case False
    have e: "solve_iter func params tf tol minStep maxStep s
             = s\<lparr>stepSize := shrink (errorNorm err) tol minStep (tf - currentT s) h\<rparr>"
      using Some rk False by (simp add: solve_iter_def Let_def h_def)
    have g: "0 \<le> tol \<longrightarrow> (case shrink (errorNorm err) tol minStep (tf - currentT s) h of
               None \<Rightarrow> True | Some h' \<Rightarrow> h' \<le> maxStep)"
    proof (cases "errorNorm err")
      case None
      then show ?thesis by (simp add: shrink_def)
    next
      case (Some e)
      show ?thesis
        using shrink_bounded [of tol h maxStep minStep e "tf - currentT s"] hb assms(3,4) False Some
        by (auto split: option.splits)
    qed
    show ?thesis
      using assms(1) g by (simp add: e paced_run_def)
  qed
qed

lemma solve_loop_paced:
  assumes "solve_loop func params tf tol minStep maxStep (initial_state t0 y0 maxStep) = Some s"
    and "minStep \<le> maxStep" and "0 < maxStep"
  shows "tf - t0 \<le> (real (length (tResult s)) - 1) * maxStep"
proof -
  have "paced_run t0 maxStep tol s \<and> \<not> currentT s < tf"
  proof (rule solve_loop_invariant [OF assms(1), where I = "paced_run t0 maxStep tol"])
    show "paced_run t0 maxStep tol (initial_state t0 y0 maxStep)"
      by (simp add: paced_run_def initial_state_def)
  next
    fix u :: loop_state
    assume "paced_run t0 maxStep tol u" and "currentT u < tf"
    then show "paced_run t0 maxStep tol (solve_iter func params tf tol minStep maxStep u)"
      using assms(2,3) by (rule solve_iter_paced)
  qed
  then show ?thesis by (simp add: paced_run_def)
qed

lemma generateECGSyn_grid:
  assumes "generateECGSyn d sr params tol = Some (Returned (t, e))"
    and "numPoints d sr = Some n"
    and "2 \<le> n" and "0 < d"
    and "1 / 10 ^ 8 \<le> d / real_of_int (n - 1) / 2"
  shows "t = tInterp_grid 0 d n"
proof -
  let ?n = "n"
  let ?M = "d / real_of_int (?n - 1) / 2"
  let ?o = "\<lparr>initialConditions = [1, 0, 0], timeSpan = (0, d),
             timePoints = Some ?n, tolerance = Some tol,
             minStepSize = None, maxStepSize = None\<rparr>"
  obtain p y where s: "solveODE ecgsynODE ?o p = Some (Returned (t, y))"
    using assms(1,2)
    by (auto simp: generateECGSyn_def Let_def split: option.splits outcome.splits if_splits)
  have n1: "0 < real_of_int (?n - 1)" using assms(3) by simp
  have M: "0 < ?M" using assms(4) n1 by simp
  have n01: "?n \<noteq> 0" "?n \<noteq> 1" using assms(3) by linarith+
  have ts: "d / real_of_int (?n - 1) \<noteq> 0" using assms(4) n01(2) by simp
  have pm: "pick_maxStep None (Some ?n) d = ?M"
    unfolding pick_maxStep_def truthy_def Let_def
    by (simp only: option.case n01 ts simp_thms if_True if_False option.sel)
  obtain u where u: "solve_loop ecgsynODE p d tol (1 / 10 ^ 8) ?M (initial_state 0 [1, 0, 0] ?M) = Some u"
    using s n01 by (auto simp: solveODE_def Let_def pm split: if_splits option.splits)
  have "d - 0 \<le> (real (length (tResult u)) - 1) * ?M"
    by (rule solve_loop_paced [OF u assms(5) M])
  then have "d * (2 * real_of_int (?n - 1)) \<le> (real (length (tResult u)) - 1) * d"
    using n1 by (simp add: field_simps)
  then have "2 * real_of_int (?n - 1) \<le> real (length (tResult u)) - 1"
    using assms(4) by simp
  then have "2 * (?n - 1) \<le> int (length (tResult u)) - 1"
    by linarith
  moreover have "2 * (n - 1) \<le> L - 1 \<Longrightarrow> 2 \<le> n \<Longrightarrow> L \<noteq> n" for n L :: int
    by arith
  ultimately have ne: "int (length (tResult u)) \<noteq> ?n" using assms(3) by blast
  show ?thesis
    using s u ne n01
    by (auto simp: solveODE_def Let_def pm split: if_splits option.splits)
qed

section \<open>The irregular rhythm\<close>

lemma js_rem_le:
  assumes "0 \<le> t" and "0 < a"
  shows "js_rem t a \<le> t"
proof -
  have q: "0 \<le> t / a" using assms by simp
  then have "0 \<le> \<lfloor>t / a\<rfloor>" by simp
  then have "0 \<le> a * of_int \<lfloor>t / a\<rfloor>" using assms(2) by simp
  then show ?thesis using q by (simp add: js_rem_def)
qed

lemma copy_segment_all:
  assumes "\<forall>i. si \<le> i \<and> i < length time' \<longrightarrow>
             time' ! i < e \<and> start + js_rem (time' ! i) a \<le> last time'"
    and "si \<le> length time'"
  shows "copy_segment time' sig (Some a) start (Some e) si nt ns
         = (length time',
            nt @ map (\<lambda>i. start + js_rem (time' ! i) a) [si..<length time'],
            ns @ map (\<lambda>i. sig ! i) [si..<length time'])"
  using assms
proof (induction "length time' - si" arbitrary: si nt ns)
  case 0
  then have "si = length time'" by simp
  then show ?case by (subst copy_segment.simps) simp
next
  case (Suc m)
  then have lt: "si < length time'" by simp
  have c: "time' ! si < e" "start + js_rem (time' ! si) a \<le> last time'"
    using Suc.prems(1) lt by auto
  have m: "m = length time' - (si + 1)" using Suc.hyps(2) by simp
  have r: "\<forall>i. si + 1 \<le> i \<and> i < length time' \<longrightarrow>
             time' ! i < e \<and> start + js_rem (time' ! i) a \<le> last time'"
    using Suc.prems(1) by auto
  have "copy_segment time' sig (Some a) start (Some e) si nt ns
        = copy_segment time' sig (Some a) start (Some e) (si + 1)
            (nt @ [start + js_rem (time' ! si) a]) (ns @ [sig ! si])"
    using lt c by (subst copy_segment.simps) (simp add: Let_def)
  also have "\<dots> = (length time',
            (nt @ [start + js_rem (time' ! si) a])
              @ map (\<lambda>i. start + js_rem (time' ! i) a) [si + 1..<length time'],
            (ns @ [sig ! si]) @ map (\<lambda>i. sig ! i) [si + 1..<length time'])"
    using lt by (intro Suc.hyps(1) [OF m r]) simp
  also have "\<dots> = (length time',
            nt @ map (\<lambda>i. start + js_rem (time' ! i) a) [si..<length time'],
            ns @ map (\<lambda>i. sig ! i) [si..<length time'])"
    using lt by (simp add: upt_conv_Cons)
  finally show ?case .
qed

lemma afib_grid_facts:
  "length afib_grid = 130" "afib_grid \<noteq> []" "last afib_grid = 13 / 25"
  "i < 130 \<Longrightarrow> afib_grid ! i = real i * (13 / 25) / 129"
proof -
  show l: "length afib_grid = 130" by (simp add: afib_grid_def tInterp_grid_def)
  show n: "afib_grid \<noteq> []" using l by auto
  show "last afib_grid = 13 / 25"
    using tInterp_grid_ends(2) [of 0 "13 / 25" 130] n by (simp add: afib_grid_def)
  show "afib_grid ! i = real i * (13 / 25) / 129" if "i < 130"
    using that by (simp add: afib_grid_def tInterp_grid_def)
qed

lemma afib_grid_range:
  assumes "i < 130"
  shows "0 \<le> afib_grid ! i" and "afib_grid ! i \<le> 13 / 25"
proof -
  have "real i \<le> 129" using assms by simp
  then show "afib_grid ! i \<le> 13 / 25"
    using assms by (simp add: afib_grid_facts(4))
  show "0 \<le> afib_grid ! i"
    using assms by (simp add: afib_grid_facts(4))
qed

lemma afib_irregular:
  assumes "length sig = 130"
  shows "makeIrregular \<lparr>thisSamplingRate = 250\<rparr> afib_grid sig 120 three_quarters k
         = Some ((map (\<lambda>i. js_rem (afib_grid ! i) (1 / 2)) [0..<130],
                  map (\<lambda>i. sig ! i) [0..<130]), k + 1)"
proof -
  let ?s0 = "\<lparr>irCurrentTime = 0, irSourceIndex = 0, irNewTime = [], irNewSignal = [], irK = k\<rparr>"
  let ?s1 = "\<lparr>irCurrentTime = 49 / 80, irSourceIndex = 125,
              irNewTime = map (\<lambda>i. js_rem (afib_grid ! i) (1 / 2)) [0..<130],
              irNewSignal = map (\<lambda>i. sig ! i) [0..<130], irK = k + 1\<rparr>"
  have all: "\<forall>i. 0 \<le> i \<and> i < length afib_grid \<longrightarrow>
               afib_grid ! i < 49 / 80 \<and> 0 + js_rem (afib_grid ! i) (1 / 2) \<le> last afib_grid"
  proof (intro allI impI)
    fix i assume "0 \<le> i \<and> i < length afib_grid"
    then have i: "i < 130" by (simp add: afib_grid_facts)
    have "js_rem (afib_grid ! i) (1 / 2) \<le> afib_grid ! i"
      using afib_grid_range(1) [OF i] by (intro js_rem_le) simp_all
    then show "afib_grid ! i < 49 / 80 \<and> 0 + js_rem (afib_grid ! i) (1 / 2) \<le> last afib_grid"
      using afib_grid_range(2) [OF i] by (simp add: afib_grid_facts)
  qed
  have cs: "copy_segment afib_grid sig (Some (1 / 2)) 0 (Some (49 / 80)) 0 [] []
            = (130, map (\<lambda>i. js_rem (afib_grid ! i) (1 / 2)) [0..<130], map (\<lambda>i. sig ! i) [0..<130])"
    using copy_segment_all [OF all, of sig "[]" "[]"] by (simp add: afib_grid_facts)
  have b: "irregular_beat afib_grid sig (60 / 120) 250 three_quarters ?s0 = ?s1"
    by (simp add: irregular_beat_def Let_def three_quarters_def cs)
  have "irregular_loop afib_grid sig 120 250 three_quarters ?s0
        = irregular_loop afib_grid sig 120 250 three_quarters ?s1"
    using assms by (subst irregular_loop.simps) (simp add: afib_grid_facts b [simplified])
  also have "\<dots> = Some ?s1"
    by (subst irregular_loop.simps) (simp add: afib_grid_facts)
  finally show ?thesis
    by (simp add: makeIrregular_def)
qed

lemma afib_times_unordered:
  "\<not> sorted (map (\<lambda>i. js_rem (afib_grid ! i) (1 / 2)) [0..<130])"
proof
  assume s: "sorted (map (\<lambda>i. js_rem (afib_grid ! i) (1 / 2)) [0..<130])"
  have "map (\<lambda>i. js_rem (afib_grid ! i) (1 / 2)) [0..<130] ! 124
        \<le> map (\<lambda>i. js_rem (afib_grid ! i) (1 / 2)) [0..<130] ! 125"
    using s by (rule sorted_nth_mono) simp_all
  then show False
    by (simp add: afib_grid_facts(4) js_rem_def)
qed


lemma generate_steps:
  assumes "generate this rnd k options = Some (Returned r, k')"
    and "apply_pathology (reqPathology options) rnd k
           (DEFAULT_ECGSYN_PARAMS\<lparr>heartRate := reqHeartRate options\<rparr>) = Returned (params1, k1)"
    and "optCustomParams options = None"
  shows "\<exists>t0 e0 e1 k2.
           generateECGSyn (reqDuration options) (reqSamplingRate this options) params1
               (reqSolverTolerance options) = Some (Returned (t0, e0))
           \<and> post_process this (reqPathology options) params1 rnd k1 t0 e0 = Some ((time r, e1), k2)"
  using assms
  by (auto simp: generate_def Let_def split: outcome.splits option.splits prod.splits if_splits)

lemma addFibrillatoryWaves_length:
  "addFibrillatoryWaves e t rnd k = (e', k') \<Longrightarrow> length e' = length e"
  by (auto simp: addFibrillatoryWaves_def)

lemma afib_apply:
  "apply_pathology ''atrialFibrillation'' three_quarters 0 (DEFAULT_ECGSYN_PARAMS\<lparr>heartRate := 60\<rparr>)
   = Returned (enh_atrialFibrillation three_quarters 0 (DEFAULT_ECGSYN_PARAMS\<lparr>heartRate := 60\<rparr>))"
  by (simp add: apply_pathology_def js_get_def ENHANCED_PATHOLOGY_PARAMS_def)

lemma afib_generate_time:
  assumes "generate \<lparr>thisSamplingRate = 250\<rparr> three_quarters 0
             (plain_request (13 / 25) (Some ''atrialFibrillation'')) = Some (Returned r, k')"
  shows "time r = map (\<lambda>i. js_rem (afib_grid ! i) (1 / 2)) [0..<130]"
proof -
  let ?g = "\<lparr>thisSamplingRate = 250\<rparr>"
  let ?o = "plain_request (13 / 25) (Some ''atrialFibrillation'')"
  obtain P k1 where P: "enh_atrialFibrillation three_quarters 0 (DEFAULT_ECGSYN_PARAMS\<lparr>heartRate := 60\<rparr>)
                        = (P, k1)"
    by (cases "enh_atrialFibrillation three_quarters 0 (DEFAULT_ECGSYN_PARAMS\<lparr>heartRate := 60\<rparr>)")
  have hr: "heartRate P = 120"
    using P by (auto simp: enh_atrialFibrillation_def three_quarters_def)
  have rq: "reqPathology ?o = ''atrialFibrillation''" "reqHeartRate ?o = 60"
    "reqDuration ?o = 13 / 25" "reqSamplingRate ?g ?o = 250" "optCustomParams ?o = None"
    by (simp_all add: req_defs plain_request_def)
  have ap: "apply_pathology (reqPathology ?o) three_quarters 0
           (DEFAULT_ECGSYN_PARAMS\<lparr>heartRate := reqHeartRate ?o\<rparr>) = Returned (P, k1)"
    by (simp only: rq afib_apply P)
  obtain t0 e0 e1 k2 where
    g: "generateECGSyn (13 / 25) 250 P (reqSolverTolerance ?o) = Some (Returned (t0, e0))"
    and pp: "post_process ?g ''atrialFibrillation'' P three_quarters k1 t0 e0 = Some ((time r, e1), k2)"
    using generate_steps [OF assms ap rq(5)] by (auto simp only: rq)
  have n: "numPoints (13 / 25) 250 = Some 130" by (simp add: binary64_defs Let_def)
  have t0: "t0 = afib_grid"
    using generateECGSyn_grid [OF g n] by (simp add: afib_grid_def)
  have l0: "length e0 = 130"
    using generateECGSyn_shape(1) [OF g] t0 by (simp add: afib_grid_facts)
  obtain e' k'' where f: "addFibrillatoryWaves e0 t0 three_quarters k1 = (e', k'')"
    by (cases "addFibrillatoryWaves e0 t0 three_quarters k1")
  have l': "length e' = 130" using addFibrillatoryWaves_length [OF f] l0 by simp
  have "makeIrregular ?g afib_grid e' 120 three_quarters k'' = Some ((time r, e1), k2)"
    using pp f t0 hr by (simp add: post_process_def)
  then show ?thesis
    by (simp add: afib_irregular [OF l'])
qed

lemma backwards_generate:
  "generate \<lparr>thisSamplingRate = 250\<rparr> half 0 backwards_request
   = Some (Returned \<lparr>time = [0, - (1 / 125)], signal = [0, 0], samplingRate = - 250,
        metadata = \<lparr>mdDuration = - (1 / 125), mdHeartRate = 60, mdPathology = ''normal'',
                    mdNoise = None\<rparr>\<rparr>, 0)"
proof -
  have n: "numPoints (- (1 / 125)) (- 250) = Some 2" by simp
  have l: "solve_loop ecgsynODE p (- (1 / 125)) tol mn mx (initial_state 0 [1, 0, 0] mx)
           = Some (initial_state 0 [1, 0, 0] mx)" for p tol mn mx
    by (subst solve_loop_stop) (simp_all add: initial_state_def)
  have i: "tResult (initial_state 0 [1, 0, 0] mx) = [0]"
    "yResult (initial_state 0 [1, 0, 0] mx) = [[1, 0, 0]]" for mx
    by (simp_all add: initial_state_def)
  have b: "find_bracket [0] t 0 = 0" for t
    by (simp add: find_bracket.simps [of _ _ 0])
  have g: "tInterp_grid 0 (- (1 / 125)) 2 = [0, - (1 / 125)]"
    by (simp add: tInterp_grid_def eval_nat_numeral upt_rec)
  have s: "solveODE ecgsynODE
             \<lparr>initialConditions = [1, 0, 0], timeSpan = (0, - (1 / 125)), timePoints = Some 2,
              tolerance = Some tol, minStepSize = None, maxStepSize = None\<rparr> p
           = Some (Returned ([0, - (1 / 125)], [[1, 0, 0], [1, 0, 0]]))" for tol p
    by (simp add: solveODE_def Let_def l g interp_point_def b i)
  have e: "generateECGSyn (- (1 / 125)) (- 250) params tol
           = Some (Returned ([0, - (1 / 125)], [0, 0]))" for params tol
    unfolding generateECGSyn_def Let_def
    by (simp add: n s)
  show ?thesis
    unfolding generate_def Let_def req_defs backwards_request_def
    by (simp add: apply_pathology_def e post_process_def)
qed

section \<open>The solver tolerance\<close>


lemma scaled_throw:
  assumes "(case x of None \<Rightarrow> None
            | Some (Returned (t, y)) \<Rightarrow> Some (Returned (t, f y))
            | Some (Threw e) \<Rightarrow> Some (Threw e)
            | Some Unmodelled \<Rightarrow> Some Unmodelled) = Some (Threw e')"
  shows "x = Some (Threw e')"
  using assms by (auto split: option.splits outcome.splits prod.splits)














section \<open>The range of the time array\<close>









section \<open>Streaming\<close>













end
